theory Spec2Isabelle
  imports Main "HOL-Library.Word" "HOL-Library.Signed_Division" "HOL-Library.Sublist"
begin

section \<open>The AMQP queue client of go-queue.v1 (amqp.go)\<close>

text \<open>
  A shallow embedding of \<^verbatim>\<open>vendor/gopkg.in/src-d/go-queue.v1/amqp/amqp.go\<close>.
  The broker library (streadway/amqp) is the boundary of the program: every call the code
  makes on a connection, a channel or an acknowledger is appended to a trace, and what the
  call returns is read from an oracle that sees the trace so far. Any behaviour of a broker
  in a sequential run is such an oracle. The supervisor goroutine that replaces the
  connection is not part of this model.
\<close>

subsection \<open>Data\<close>

type_synonym byte = "8 word"
type_synonym int32 = "32 word"
type_synonym int64 = "64 word"
type_synonym uint64 = "64 word"
type_synonym time = int

text \<open>Values of an \<^verbatim>\<open>amqp.Table\<close> (a \<^verbatim>\<open>map[string]interface{}\<close>), by dynamic type.\<close>

datatype field =
    FNil
  | FBool bool
  | FUint8 byte
  | FInt16 "16 word"
  | FInt32 int32
  | FInt64 int64
  | FString string
  | FBytes "byte list"

type_synonym table = "string \<rightharpoonup> field"

text \<open>\<^verbatim>\<open>type Configuration struct\<close>; the backoff settings are used by the supervisor only.\<close>

record Configuration =
  BuriedQueueSuffix :: string
  BuriedExchangeSuffix :: string
  BuriedNonBlockingRetries :: int
  RetriesHeader :: string
  ErrorHeader :: string

text \<open>The values of the \<^verbatim>\<open>default:\<close> tags of \<^verbatim>\<open>Configuration\<close>.\<close>

definition defaults :: Configuration where
  "defaults = \<lparr>BuriedQueueSuffix = ''.buriedQueue'', BuriedExchangeSuffix = ''.buriedExchange'',
     BuriedNonBlockingRetries = 3, RetriesHeader = ''x-retries'', ErrorHeader = ''x-error-type''\<rparr>"

text \<open>
  Errors. The kinds \<^verbatim>\<open>ErrOpenChannel\<close>, \<^verbatim>\<open>ErrRetrievingHeader\<close> and
  \<^verbatim>\<open>ErrRepublishingJobs\<close> are declared in amqp.go and carry the arguments of
  \<^verbatim>\<open>New\<close>; \<^verbatim>\<open>ErrEmptyJob\<close>, \<^verbatim>\<open>ErrAlreadyClosed\<close> and \<^verbatim>\<open>ErrCantAck\<close> are kinds of
  package queue; \<open>ErrBuriedQueueNil\<close> is the \<^verbatim>\<open>fmt.Errorf\<close> of \<^verbatim>\<open>RepublishBuried\<close>;
  \<open>Foreign\<close> is an error of the broker library, of the uuid generator or of a callback,
  with its text. \<open>Panic\<close> is not an error value of the program: it marks the run that ends
  in a nil dereference.
\<close>

datatype error =
    ErrEmptyJob
  | ErrAlreadyClosed
  | ErrCantAck
  | ErrOpenChannel string
  | ErrRetrievingHeader string string
  | ErrRepublishingJobs string
  | ErrBuriedQueueNil
  | Foreign string
  | Panic

text \<open>\<^verbatim>\<open>type Acknowledger struct { ack amqp.Acknowledger; id uint64 }\<close>; the
  \<^verbatim>\<open>amqp.Acknowledger\<close> of a delivery is the channel that delivered it.\<close>

record Acknowledger =
  a_ack :: nat
  a_id :: uint64

text \<open>
  Modelled from the spec: the declaration of \<^verbatim>\<open>queue.Job\<close> is in package queue, which is
  not part of the sources at hand. A job has an id, a priority (a small unsigned integer,
  which amqp.go converts to and from \<^verbatim>\<open>uint8\<close>), a creation time, a count of retries
  (amqp.go assigns it an \<^verbatim>\<open>int32\<close>), an error type, a content type, the raw payload
  and, on a consumed job only, an acknowledger.
\<close>

record Job =
  ID :: string
  Priority :: byte
  Timestamp :: time
  Retries :: int32
  ErrorType :: string
  ContentType :: string
  Raw :: "byte list"
  Acknowledger :: "Acknowledger option"

record Publishing =
  pDeliveryMode :: byte
  pMessageId :: string
  pPriority :: byte
  pTimestamp :: time
  pContentType :: string
  pBody :: "byte list"
  pHeaders :: table

record Delivery =
  dAcknowledger :: nat
  dHeaders :: table
  dContentType :: string
  dPriority :: byte
  dMessageId :: string
  dTimestamp :: time
  dDeliveryTag :: uint64
  dBody :: "byte list"

text \<open>\<^verbatim>\<open>amqp.Queue\<close>, as \<^verbatim>\<open>QueueDeclare\<close> returns it.\<close>

record amqp_Queue =
  Name :: string
  Messages :: int
  Consumers :: int

text \<open>\<^verbatim>\<open>type Broker struct\<close>: the connection and the channel, as identifiers.\<close>

record Broker =
  conn :: nat
  ch :: nat

datatype Queue = Queue (q_conn: Broker) (q_queue: amqp_Queue) (buriedQueue: "Queue option")

text \<open>What one non-blocking receive on the delivery stream of a consumer finds.\<close>

datatype poll = Deliver Delivery | StreamClosed | NoDelivery

text \<open>\<^verbatim>\<open>type JobIter struct { id string; ch *amqp.Channel; c <-chan amqp.Delivery }\<close>. The
  stream \<open>i_c\<close> is the finite sequence of what the coming non-blocking receives find; when it
  is used up, nothing more is queued.\<close>

record JobIter =
  i_id :: string
  i_ch :: nat
  i_c :: "poll list"

subsection \<open>The boundary: calls, the trace and the oracle\<close>

text \<open>The calls on a connection (\<open>Channel\<close>), on a channel and on an acknowledger, each
  with the identifier of its receiver and its arguments; and two events of the program
  itself: a delivery taken off the stream of a consumer, and a sleep.\<close>

datatype call =
    Channel nat
  | ChPublish nat string string bool bool Publishing
  | QueueDeclare nat string bool bool bool bool table
  | Qos nat int int bool
  | ChConsume nat string string bool bool bool bool
  | Cancel nat string bool
  | ChClose nat
  | Tx nat
  | TxRollback nat
  | TxCommit nat
  | Ack nat uint64 bool
  | Reject nat uint64 bool
  | Received nat Delivery
  | Sleep int64

text \<open>
  The mutable state: the calls made so far and the process-wide \<^verbatim>\<open>consumerSeq\<close>.
\<close>

record world =
  trace :: "call list"
  consumerSeq :: uint64

text \<open>
  The environment of a run. \<open>returns\<close> answers the calls that return only an error
  (\<open>None\<close> is \<^verbatim>\<open>nil\<close>); \<open>opens\<close>, \<open>declares\<close> and \<open>consumes\<close> answer
  \<^verbatim>\<open>Connection.Channel\<close>, \<^verbatim>\<open>QueueDeclare\<close> and \<^verbatim>\<open>Channel.Consume\<close>. The other fields
  stand for what amqp.go uses of package queue and of the process: the constant
  \<^verbatim>\<open>PriorityUrgent\<close>, the job \<^verbatim>\<open>NewJob\<close> allocates (or its failure), the texts of the
  error kinds of package queue, and \<^verbatim>\<open>os.Args[0]\<close>.
\<close>

record env =
  DefaultConfiguration :: Configuration
  returns :: "call list \<Rightarrow> call \<Rightarrow> error option"
  opens :: "call list \<Rightarrow> nat \<Rightarrow> error + nat"
  declares :: "call list \<Rightarrow> call \<Rightarrow> error + amqp_Queue"
  consumes :: "call list \<Rightarrow> call \<Rightarrow> error + poll list"
  PriorityUrgent :: byte
  allocates :: "call list \<Rightarrow> error + Job"
  ErrEmptyJob_text :: string
  ErrAlreadyClosed_text :: string
  ErrCantAck_text :: string
  Args0 :: string

definition record_call :: "call \<Rightarrow> world \<Rightarrow> world" where
  "record_call c w = w\<lparr>trace := trace w @ [c]\<rparr>"

text \<open>A call that returns an error or \<^verbatim>\<open>nil\<close>.\<close>

definition perform :: "env \<Rightarrow> call \<Rightarrow> world \<Rightarrow> error option \<times> world" where
  "perform e c w = (returns e (trace w) c, record_call c w)"

subsection \<open>Package queue, as amqp.go uses it\<close>

text \<open>\<^verbatim>\<open>func (j *Job) Size() int\<close>: the length of the payload, which \<^verbatim>\<open>Publish\<close> compares
  with 0.\<close>

definition Size :: "Job \<Rightarrow> nat" where
  "Size j = length (Raw j)"

text \<open>
  Modelled from the spec: \<^verbatim>\<open>NewJob\<close> of package queue is not part of the sources at hand.
  A freshly constructed job has a new id and the creation time as timestamp (with the priority
  and content type the allocator picks); retries defaults to 0, the error type is empty,
  there is no payload yet, and the acknowledger is absent.
\<close>

definition NewJob :: "env \<Rightarrow> world \<Rightarrow> error + Job" where
  "NewJob e w =
     (case allocates e (trace w) of
        Inl err \<Rightarrow> Inl err
      | Inr j \<Rightarrow> Inr (j\<lparr>Retries := 0, ErrorType := [], Raw := [], Acknowledger := None\<rparr>))"

subsection \<open>Publishing\<close>

definition Persistent :: byte where
  "Persistent = 2"

text \<open>The headers \<^verbatim>\<open>Publish\<close> builds (lines 260 to 267). The comparison of \<^verbatim>\<open>j.Retries\<close>
  with 0 is the signed one of \<^verbatim>\<open>int32\<close>.\<close>

definition publish_headers :: "Configuration \<Rightarrow> Job \<Rightarrow> table" where
  "publish_headers cfg j =
     (let headers = Map.empty;
          headers = (if 0 <s Retries j then headers(RetriesHeader cfg \<mapsto> FInt32 (Retries j))
                     else headers);
          headers = (if ErrorType j \<noteq> [] then headers(ErrorHeader cfg \<mapsto> FString (ErrorType j))
                     else headers)
      in headers)"

text \<open>The \<^verbatim>\<open>amqp.Publishing\<close> literal of \<^verbatim>\<open>Publish\<close> and of \<^verbatim>\<open>PublishDelayed\<close>; the
  second sets no \<^verbatim>\<open>Headers\<close>.\<close>

definition publishing :: "Job \<Rightarrow> table \<Rightarrow> Publishing" where
  "publishing j headers =
     \<lparr>pDeliveryMode = Persistent, pMessageId = ID j, pPriority = Priority j,
      pTimestamp = Timestamp j, pContentType = ContentType j, pBody = Raw j,
      pHeaders = headers\<rparr>"

text \<open>\<^verbatim>\<open>func (q *Queue) Publish(j *queue.Job) error\<close>; a \<^verbatim>\<open>nil\<close> job is \<open>None\<close>.\<close>

definition Publish :: "env \<Rightarrow> Queue \<Rightarrow> Job option \<Rightarrow> world \<Rightarrow> error option \<times> world" where
  "Publish e q jo w =
     (case jo of
        None \<Rightarrow> (Some ErrEmptyJob, w)
      | Some j \<Rightarrow>
          if Size j = 0 then (Some ErrEmptyJob, w)
          else perform e
                 (ChPublish (ch (q_conn q)) [] (Name (q_queue q)) False False
                    (publishing j (publish_headers (DefaultConfiguration e) j))) w)"

text \<open>\<^verbatim>\<open>time.Millisecond\<close>, in nanoseconds.\<close>

definition Millisecond :: int64 where
  "Millisecond = 1000000"

text \<open>Division of \<^verbatim>\<open>int64\<close> in Go truncates towards zero.\<close>

definition div_int64 :: "int64 \<Rightarrow> int64 \<Rightarrow> int64" where
  "div_int64 a b = word_of_int (sint a sdiv sint b)"

text \<open>The arguments of the queue \<^verbatim>\<open>PublishDelayed\<close> declares (lines 300 to 306).\<close>

definition delayed_args :: "env \<Rightarrow> Queue \<Rightarrow> int64 \<Rightarrow> table" where
  "delayed_args e q delay =
     (let ttl = div_int64 delay Millisecond
      in [''x-dead-letter-exchange'' \<mapsto> FString [],
          ''x-dead-letter-routing-key'' \<mapsto> FString (Name (q_queue q)),
          ''x-message-ttl'' \<mapsto> FInt64 ttl,
          ''x-expires'' \<mapsto> FInt64 (ttl * 2),
          ''x-max-priority'' \<mapsto> FUint8 (PriorityUrgent e)])"

text \<open>\<^verbatim>\<open>func (q *Queue) PublishDelayed(j *queue.Job, delay time.Duration) error\<close>.\<close>

definition PublishDelayed ::
  "env \<Rightarrow> Queue \<Rightarrow> Job option \<Rightarrow> int64 \<Rightarrow> world \<Rightarrow> error option \<times> world" where
  "PublishDelayed e q jo delay w =
     (case jo of
        None \<Rightarrow> (Some ErrEmptyJob, w)
      | Some j \<Rightarrow>
          if Size j = 0 then (Some ErrEmptyJob, w)
          else
            let c = QueueDeclare (ch (q_conn q)) (ID j) True True False False
                      (delayed_args e q delay)
            in (case declares e (trace w) c of
                  Inl err \<Rightarrow> (Some err, record_call c w)
                | Inr delayedQueue \<Rightarrow>
                    perform e
                      (ChPublish (ch (q_conn q)) [] (Name delayedQueue) False False
                         (publishing j Map.empty)) (record_call c w)))"

subsection \<open>Decoding a delivery\<close>

text \<open>\<^verbatim>\<open>func fromDelivery(d *amqp.Delivery) (*queue.Job, error)\<close>.\<close>

definition fromDelivery :: "env \<Rightarrow> Delivery \<Rightarrow> world \<Rightarrow> error + Job" where
  "fromDelivery e d w =
     (case NewJob e w of
        Inl err \<Rightarrow> Inl err
      | Inr j \<Rightarrow>
          let cfg = DefaultConfiguration e;
              j = j\<lparr>ID := dMessageId d, Priority := dPriority d, Timestamp := dTimestamp d,
                    ContentType := dContentType d,
                    Acknowledger := Some \<lparr>a_ack = dAcknowledger d, a_id = dDeliveryTag d\<rparr>,
                    Raw := dBody d\<rparr>
          in (case (case dHeaders d (RetriesHeader cfg) of
                      None \<Rightarrow> Inr j
                    | Some (FInt32 retries) \<Rightarrow> Inr (j\<lparr>Retries := retries\<rparr>)
                    | Some _ \<Rightarrow> Inl (ErrRetrievingHeader (RetriesHeader cfg) (dMessageId d))) of
                Inl err \<Rightarrow> Inl err
              | Inr j \<Rightarrow>
                  (case dHeaders d (ErrorHeader cfg) of
                     None \<Rightarrow> Inr j
                   | Some (FString errorType) \<Rightarrow> Inr (j\<lparr>ErrorType := errorType\<rparr>)
                   | Some _ \<Rightarrow> Inl (ErrRetrievingHeader (ErrorHeader cfg) (dMessageId d)))))"

text \<open>The delivery a consumer on channel \<open>c\<close> receives for a published message, with
  delivery tag \<open>t\<close>: the broker hands the properties, the headers and the body of the message
  on unchanged.\<close>

definition delivered :: "nat \<Rightarrow> uint64 \<Rightarrow> Publishing \<Rightarrow> Delivery" where
  "delivered c t p =
     \<lparr>dAcknowledger = c, dHeaders = pHeaders p, dContentType = pContentType p,
      dPriority = pPriority p, dMessageId = pMessageId p, dTimestamp = pTimestamp p,
      dDeliveryTag = t, dBody = pBody p\<rparr>"

subsection \<open>Errors as text\<close>

text \<open>\<^verbatim>\<open>err.Error()\<close>: the format of the kind with the arguments of \<^verbatim>\<open>New\<close> put in.\<close>

fun Error :: "env \<Rightarrow> error \<Rightarrow> string" where
  "Error e ErrEmptyJob = ErrEmptyJob_text e"
| "Error e ErrAlreadyClosed = ErrAlreadyClosed_text e"
| "Error e ErrCantAck = ErrCantAck_text e"
| "Error e (ErrOpenChannel s) = ''failed to open a channel: '' @ s"
| "Error e (ErrRetrievingHeader h m) =
     ''error retrieving '' @ [CHR 0x27] @ h @ [CHR 0x27] @ '' header from message '' @ m"
| "Error e (ErrRepublishingJobs s) = ''couldn't republish some jobs : '' @ s"
| "Error e ErrBuriedQueueNil =
     ''buriedQueue is nil, called RepublishBuried on the internal buried queue?''"
| "Error e (Foreign s) = s"
| "Error e Panic = ''invalid memory address or nil pointer dereference''"

text \<open>\<^verbatim>\<open>strings.Join(elems, sep)\<close>.\<close>

fun Join :: "string list \<Rightarrow> string \<Rightarrow> string" where
  "Join [] sep = []"
| "Join [s] sep = s"
| "Join (s # t # ss) sep = s @ sep @ Join (t # ss) sep"

text \<open>The verb \<^verbatim>\<open>%d\<close> of \<^verbatim>\<open>fmt.Sprintf\<close> on an unsigned number.\<close>

function decimal :: "nat \<Rightarrow> string" where
  "decimal n =
     (if n < 10 then [char_of (48 + n)] else decimal (n div 10) @ [char_of (48 + n mod 10)])"
  by pat_completeness auto
termination
  by (relation "measure (\<lambda>n. n)") auto

declare decimal.simps [simp del]

subsection \<open>Acknowledging\<close>

text \<open>\<^verbatim>\<open>func (a *Acknowledger) Ack() error\<close> and \<^verbatim>\<open>Reject(requeue bool) error\<close>.\<close>

definition Acknowledger_Ack :: "env \<Rightarrow> Acknowledger \<Rightarrow> world \<Rightarrow> error option \<times> world" where
  "Acknowledger_Ack e a w = perform e (Ack (a_ack a) (a_id a) False) w"

definition Acknowledger_Reject ::
  "env \<Rightarrow> Acknowledger \<Rightarrow> bool \<Rightarrow> world \<Rightarrow> error option \<times> world" where
  "Acknowledger_Reject e a requeue w = perform e (Reject (a_ack a) (a_id a) requeue) w"

text \<open>
  Modelled from the spec: \<^verbatim>\<open>Job.Ack\<close> and \<^verbatim>\<open>Job.Reject\<close> of package queue are not part
  of the sources at hand. A job without an acknowledger cannot be acked or rejected; on a
  consumed job both delegate to its acknowledger.
\<close>

definition Job_Ack :: "env \<Rightarrow> Job \<Rightarrow> world \<Rightarrow> error option \<times> world" where
  "Job_Ack e j w =
     (case Acknowledger j of
        None \<Rightarrow> (Some ErrCantAck, w)
      | Some a \<Rightarrow> Acknowledger_Ack e a w)"

definition Job_Reject :: "env \<Rightarrow> Job \<Rightarrow> bool \<Rightarrow> world \<Rightarrow> error option \<times> world" where
  "Job_Reject e j requeue w =
     (case Acknowledger j of
        None \<Rightarrow> (Some ErrCantAck, w)
      | Some a \<Rightarrow> Acknowledger_Reject e a requeue w)"

subsection \<open>Consuming\<close>

text \<open>\<^verbatim>\<open>func (q *Queue) consumeID() string\<close>; \<^verbatim>\<open>atomic.AddUint64\<close> returns the new
  value, and wraps around.\<close>

definition consumeID :: "env \<Rightarrow> Queue \<Rightarrow> world \<Rightarrow> string \<times> world" where
  "consumeID e q w =
     (let n = consumerSeq w + 1
      in (Args0 e @ ''-'' @ Name (q_queue q) @ ''-'' @ decimal (unat n),
          w\<lparr>consumerSeq := n\<rparr>))"

text \<open>\<^verbatim>\<open>func (q *Queue) Consume(advertisedWindow int) (queue.JobIter, error)\<close>.\<close>

definition Consume :: "env \<Rightarrow> Queue \<Rightarrow> int \<Rightarrow> world \<Rightarrow> (error + JobIter) \<times> world" where
  "Consume e q advertisedWindow w =
     (let open = Channel (conn (q_conn q))
      in case opens e (trace w) (conn (q_conn q)) of
           Inl err \<Rightarrow> (Inl (ErrOpenChannel (Error e err)), record_call open w)
         | Inr c \<Rightarrow>
             (case perform e (Qos c advertisedWindow 0 False) (record_call open w) of
                (Some err, w1) \<Rightarrow> (Inl err, w1)
              | (None, w1) \<Rightarrow>
                  (case consumeID e q w1 of
                     (cid, w2) \<Rightarrow>
                       let consume = ChConsume c (Name (q_queue q)) cid False False False False
                       in (case consumes e (trace w2) consume of
                             Inl err \<Rightarrow> (Inl err, record_call consume w2)
                           | Inr stream \<Rightarrow>
                               (Inr \<lparr>i_id = cid, i_ch = c, i_c = stream\<rparr>,
                                record_call consume w2)))))"

text \<open>\<^verbatim>\<open>func (i *JobIter) nextNonBlocking() (*queue.Job, error)\<close>: the \<^verbatim>\<open>select\<close> with a
  \<^verbatim>\<open>default\<close> branch. Taking a delivery off the stream is recorded in the trace.\<close>

definition nextNonBlocking ::
  "env \<Rightarrow> JobIter \<Rightarrow> world \<Rightarrow> (error + Job option) \<times> JobIter \<times> world" where
  "nextNonBlocking e i w =
     (case i_c i of
        [] \<Rightarrow> (Inr None, i, w)
      | NoDelivery # rest \<Rightarrow> (Inr None, i\<lparr>i_c := rest\<rparr>, w)
      | StreamClosed # rest \<Rightarrow> (Inl ErrAlreadyClosed, i, w)
      | Deliver d # rest \<Rightarrow>
          (let w1 = record_call (Received (i_ch i) d) w
           in case fromDelivery e d w1 of
                Inl err \<Rightarrow> (Inl err, i\<lparr>i_c := rest\<rparr>, w1)
              | Inr j \<Rightarrow> (Inr (Some j), i\<lparr>i_c := rest\<rparr>, w1)))"

text \<open>\<^verbatim>\<open>func (i *JobIter) Close() error\<close>.\<close>

definition JobIter_Close :: "env \<Rightarrow> JobIter \<Rightarrow> world \<Rightarrow> error option \<times> world" where
  "JobIter_Close e i w =
     (case perform e (Cancel (i_ch i) (i_id i) False) w of
        (Some err, w1) \<Rightarrow> (Some err, w1)
      | (None, w1) \<Rightarrow> perform e (ChClose (i_ch i)) w1)"

subsection \<open>The buried queue\<close>

text \<open>\<^verbatim>\<open>type jobErr struct { job *queue.Job; err error }\<close>.\<close>

record jobErr =
  je_job :: Job
  je_err :: error

text \<open>
  The drain loop of \<^verbatim>\<open>RepublishBuried\<close> (lines 351 to 386), with its variables
  \<^verbatim>\<open>retries\<close>, \<^verbatim>\<open>notComplying\<close> and \<^verbatim>\<open>errorsPublishing\<close>. It ends with the error of an
  early \<^verbatim>\<open>return\<close> or, at \<^verbatim>\<open>break\<close>, with the two lists. \<open>comply\<close> stands for
  \<^verbatim>\<open>queue.RepublishConditions(conditions).Comply\<close>. The counter \<^verbatim>\<open>retries\<close> stays below
  \<^verbatim>\<open>BuriedNonBlockingRetries + 2\<close>, so it is an unbounded integer here.
\<close>

function drain ::
  "env \<Rightarrow> (Job \<Rightarrow> bool) \<Rightarrow> Queue \<Rightarrow> JobIter \<Rightarrow> int \<Rightarrow> Job list \<Rightarrow> jobErr list \<Rightarrow> world
   \<Rightarrow> (error + Job list \<times> jobErr list) \<times> world" where
  "drain e comply q iter retries notComplying errorsPublishing w =
     (case nextNonBlocking e iter w of
        (Inl err, iter1, w1) \<Rightarrow> (Inl err, w1)
      | (Inr None, iter1, w1) \<Rightarrow>
          if retries > BuriedNonBlockingRetries (DefaultConfiguration e)
          then (Inr (notComplying, errorsPublishing), w1)
          else drain e comply q iter1 (retries + 1) notComplying errorsPublishing
                 (record_call (Sleep (50 * Millisecond)) w1)
      | (Inr (Some j), iter1, w1) \<Rightarrow>
          (case Job_Ack e j w1 of
             (Some err, w2) \<Rightarrow> (Inl err, w2)
           | (None, w2) \<Rightarrow>
               if comply j
               then (case Publish e q (Some j) w2 of
                       (Some err, w3) \<Rightarrow>
                         drain e comply q iter1 0 notComplying
                           (errorsPublishing @ [\<lparr>je_job = j, je_err = err\<rparr>]) w3
                     | (None, w3) \<Rightarrow>
                         drain e comply q iter1 0 notComplying errorsPublishing w3)
               else drain e comply q iter1 0 (notComplying @ [j]) errorsPublishing w2))"
  by pat_completeness auto
termination
proof (relation "measures
    [\<lambda>(e, comply, q, iter, retries, nc, ep, w). length (i_c iter),
     \<lambda>(e, comply, q, iter, retries, nc, ep, w).
        nat (BuriedNonBlockingRetries (DefaultConfiguration e) + 1 - retries)]", goal_cases)
  case 1
  show ?case by simp
next
  case 2
  then show ?case
    by (auto simp: nextNonBlocking_def Let_def split: list.splits poll.splits sum.splits)
next
  case 3
  then show ?case
    by (auto simp: nextNonBlocking_def Let_def split: list.splits poll.splits sum.splits)
next
  case 4
  then show ?case
    by (auto simp: nextNonBlocking_def Let_def split: list.splits poll.splits sum.splits)
next
  case 5
  then show ?case
    by (auto simp: nextNonBlocking_def Let_def split: list.splits poll.splits sum.splits)
qed

declare drain.simps [simp del]

text \<open>The loop over \<^verbatim>\<open>notComplying\<close> (lines 388 to 392).\<close>

fun reject_all :: "env \<Rightarrow> Job list \<Rightarrow> world \<Rightarrow> error option \<times> world" where
  "reject_all e [] w = (None, w)"
| "reject_all e (job # jobs) w =
     (case Job_Reject e job True w of
        (Some err, w1) \<Rightarrow> (Some err, w1)
      | (None, w1) \<Rightarrow> reject_all e jobs w1)"

text \<open>\<^verbatim>\<open>q.buriedQueue.Publish(j)\<close>: the receiver may be \<^verbatim>\<open>nil\<close>, and then the first use of
  \<^verbatim>\<open>q.conn\<close>, after the check of the job, is a nil dereference.\<close>

definition Publish_on ::
  "env \<Rightarrow> Queue option \<Rightarrow> Job option \<Rightarrow> world \<Rightarrow> error option \<times> world" where
  "Publish_on e qo jo w =
     (case qo of
        Some q \<Rightarrow> Publish e q jo w
      | None \<Rightarrow>
          (case jo of
             None \<Rightarrow> (Some ErrEmptyJob, w)
           | Some j \<Rightarrow> if Size j = 0 then (Some ErrEmptyJob, w) else (Some Panic, w)))"

text \<open>The loop of \<^verbatim>\<open>handleRepublishErrors\<close> (lines 400 to 405), with its variable
  \<^verbatim>\<open>stringErrors\<close>; \<open>Inl\<close> is the early \<^verbatim>\<open>return err\<close>.\<close>

fun rebury ::
  "env \<Rightarrow> Queue \<Rightarrow> jobErr list \<Rightarrow> string list \<Rightarrow> world \<Rightarrow> (error + string list) \<times> world" where
  "rebury e q [] stringErrors w = (Inr stringErrors, w)"
| "rebury e q (je # list) stringErrors w =
     (let stringErrors = stringErrors @ [Error e (je_err je)]
      in case Publish_on e (buriedQueue q) (Some (je_job je)) w of
           (Some err, w1) \<Rightarrow> (Inl err, w1)
         | (None, w1) \<Rightarrow> rebury e q list stringErrors w1)"

text \<open>\<^verbatim>\<open>func (q *Queue) handleRepublishErrors(list []*jobErr) error\<close>.\<close>

definition handleRepublishErrors ::
  "env \<Rightarrow> Queue \<Rightarrow> jobErr list \<Rightarrow> world \<Rightarrow> error option \<times> world" where
  "handleRepublishErrors e q list w =
     (if length list > 0
      then (case rebury e q list [] w of
              (Inl err, w1) \<Rightarrow> (Some err, w1)
            | (Inr stringErrors, w1) \<Rightarrow>
                (Some (ErrRepublishingJobs (Join stringErrors '': '')), w1))
      else (None, w))"

text \<open>What \<^verbatim>\<open>RepublishBuried\<close> does between \<^verbatim>\<open>defer iter.Close()\<close> and its return
  (lines 348 to 394).\<close>

definition republish ::
  "env \<Rightarrow> (Job \<Rightarrow> bool) \<Rightarrow> Queue \<Rightarrow> JobIter \<Rightarrow> world \<Rightarrow> error option \<times> world" where
  "republish e comply q iter w =
     (case drain e comply q iter 0 [] [] w of
        (Inl err, w1) \<Rightarrow> (Some err, w1)
      | (Inr (notComplying, errorsPublishing), w1) \<Rightarrow>
          (case reject_all e notComplying w1 of
             (Some err, w2) \<Rightarrow> (Some err, w2)
           | (None, w2) \<Rightarrow> handleRepublishErrors e q errorsPublishing w2))"

text \<open>\<^verbatim>\<open>func (q *Queue) RepublishBuried(conditions ...queue.RepublishConditionFunc) error\<close>.
  The deferred \<^verbatim>\<open>iter.Close()\<close> runs after the result is fixed, and its own result is
  dropped.\<close>

definition RepublishBuried ::
  "env \<Rightarrow> (Job \<Rightarrow> bool) \<Rightarrow> Queue \<Rightarrow> world \<Rightarrow> error option \<times> world" where
  "RepublishBuried e comply q w =
     (case buriedQueue q of
        None \<Rightarrow> (Some ErrBuriedQueueNil, w)
      | Some b \<Rightarrow>
          (case Consume e b 1 w of
             (Inl err, w1) \<Rightarrow> (Some err, w1)
           | (Inr iter, w1) \<Rightarrow>
               (case republish e comply q iter w1 of
                  (r, w2) \<Rightarrow> (r, snd (JobIter_Close e iter w2)))))"

subsection \<open>Transactions\<close>

text \<open>The queue \<^verbatim>\<open>Transaction\<close> hands to the callback (lines 426 to 432): the same
  connection, the channel of the transaction, the same \<^verbatim>\<open>amqp.Queue\<close>, and no
  \<^verbatim>\<open>buriedQueue\<close>.\<close>

definition txQueue :: "Queue \<Rightarrow> nat \<Rightarrow> Queue" where
  "txQueue q c = Queue \<lparr>conn = conn (q_conn q), ch = c\<rparr> (q_queue q) None"

text \<open>\<^verbatim>\<open>func (q *Queue) Transaction(txcb queue.TxCallback) error\<close>. The callback is any
  function of the queue and the world. The deferred \<^verbatim>\<open>ch.Close()\<close> runs on every return
  after the channel was opened.\<close>

definition Transaction ::
  "env \<Rightarrow> Queue \<Rightarrow> (Queue \<Rightarrow> world \<Rightarrow> error option \<times> world) \<Rightarrow> world \<Rightarrow> error option \<times> world"
  where
  "Transaction e q txcb w =
     (let open = Channel (conn (q_conn q))
      in case opens e (trace w) (conn (q_conn q)) of
           Inl err \<Rightarrow> (Some (ErrOpenChannel (Error e err)), record_call open w)
         | Inr c \<Rightarrow>
             (case (case perform e (Tx c) (record_call open w) of
                      (Some err, w1) \<Rightarrow> (Some err, w1)
                    | (None, w1) \<Rightarrow>
                        (case txcb (txQueue q c) w1 of
                           (Some err, w2) \<Rightarrow>
                             (case perform e (TxRollback c) w2 of
                                (Some err', w3) \<Rightarrow> (Some err', w3)
                              | (None, w3) \<Rightarrow> (Some err, w3))
                         | (None, w2) \<Rightarrow> perform e (TxCommit c) w2)) of
                (r, w4) \<Rightarrow> (r, snd (perform e (ChClose c) w4))))"

subsection \<open>Headers of the wrong type\<close>

text \<open>The retries header is present in the delivery but is not an \<^verbatim>\<open>int32\<close>; the
  error-type header is present but is not a \<^verbatim>\<open>string\<close>.\<close>

definition wrong_retries :: "env \<Rightarrow> Delivery \<Rightarrow> bool" where
  "wrong_retries e d =
     (case dHeaders d (RetriesHeader (DefaultConfiguration e)) of
        None \<Rightarrow> False
      | Some (FInt32 r) \<Rightarrow> False
      | Some _ \<Rightarrow> True)"

definition wrong_errorType :: "env \<Rightarrow> Delivery \<Rightarrow> bool" where
  "wrong_errorType e d =
     (case dHeaders d (ErrorHeader (DefaultConfiguration e)) of
        None \<Rightarrow> False
      | Some (FString s) \<Rightarrow> False
      | Some _ \<Rightarrow> True)"

subsection \<open>Reading a trace\<close>

text \<open>The job \<^verbatim>\<open>fromDelivery\<close> makes of a delivery, when it returns one.\<close>

definition decoded :: "env \<Rightarrow> Delivery \<Rightarrow> Job" where
  "decoded e d =
     \<lparr>ID = dMessageId d, Priority = dPriority d, Timestamp = dTimestamp d,
      Retries = (case dHeaders d (RetriesHeader (DefaultConfiguration e)) of
                   Some (FInt32 r) \<Rightarrow> r | _ \<Rightarrow> 0),
      ErrorType = (case dHeaders d (ErrorHeader (DefaultConfiguration e)) of
                     Some (FString s) \<Rightarrow> s | _ \<Rightarrow> []),
      ContentType = dContentType d, Raw = dBody d,
      Acknowledger = Some \<lparr>a_ack = dAcknowledger d, a_id = dDeliveryTag d\<rparr>\<rparr>"

text \<open>The deliveries taken off a stream in a stretch of the trace, in order.\<close>

fun received :: "call list \<Rightarrow> Delivery list" where
  "received [] = []"
| "received (Received c d # cs) = d # received cs"
| "received (other # cs) = received cs"

fun is_ChPublish :: "call \<Rightarrow> bool" where
  "is_ChPublish (ChPublish c x key mandatory immediate m) = True"
| "is_ChPublish other = False"

text \<open>The call by which \<^verbatim>\<open>Publish\<close> on queue \<open>q\<close> hands a job to the broker, and the call
  by which a job is rejected on the channel that delivered it.\<close>

definition publish_call :: "env \<Rightarrow> Queue \<Rightarrow> Job \<Rightarrow> call" where
  "publish_call e q j =
     ChPublish (ch (q_conn q)) [] (Name (q_queue q)) False False
       (publishing j (publish_headers (DefaultConfiguration e) j))"

definition reject_call :: "Delivery \<Rightarrow> call" where
  "reject_call d = Reject (dAcknowledger d) (dDeliveryTag d) True"

text \<open>The publishes of a stretch of the trace that the broker answered with \<^verbatim>\<open>nil\<close>;
  \<open>before\<close> is the trace up to the stretch.\<close>

fun accepted :: "env \<Rightarrow> call list \<Rightarrow> call list \<Rightarrow> call list" where
  "accepted e before [] = []"
| "accepted e before (c # cs) =
     (if is_ChPublish c \<and> returns e before c = None then [c] else [])
     @ accepted e (before @ [c]) cs"

text \<open>
  What a stretch \<open>seg\<close> of the trace, made by the drain loop after the trace \<open>before\<close>, says
  about the jobs the loop collected in \<^verbatim>\<open>notComplying\<close> (\<open>ncs\<close>) and in
  \<^verbatim>\<open>errorsPublishing\<close> (\<open>fs\<close>): the first are the received jobs that do not comply, in
  order; the publishes of the stretch are those of the received jobs that comply and have a
  payload, in order; each received job that complies is in \<open>fs\<close> or had its publish
  accepted; and each entry of \<open>fs\<close> is a received job that complies, with the error
  \<^verbatim>\<open>Publish\<close> returned for it at a point of the run.
\<close>

definition drained ::
  "env \<Rightarrow> (Job \<Rightarrow> bool) \<Rightarrow> Queue \<Rightarrow> call list \<Rightarrow> call list \<Rightarrow> Job list \<Rightarrow> jobErr list \<Rightarrow> bool"
  where
  "drained e comply q before seg ncs fs \<longleftrightarrow>
     ncs = map (decoded e) (filter (\<lambda>d. \<not> comply (decoded e d)) (received seg)) \<and>
     filter is_ChPublish seg =
       map (\<lambda>d. publish_call e q (decoded e d))
         (filter (\<lambda>d. comply (decoded e d) \<and> dBody d \<noteq> []) (received seg)) \<and>
     length (filter (\<lambda>d. comply (decoded e d)) (received seg)) =
       length fs + length (accepted e before seg) \<and>
     list_all (\<lambda>je. comply (je_job je) \<and> je_job je \<in> decoded e ` set (received seg) \<and>
                 (\<exists>wa wb. prefix (trace wa) (before @ seg) \<and>
                    Publish e q (Some (je_job je)) wa = (Some (je_err je), wb))) fs"

subsection \<open>Sample runs\<close>

text \<open>A broker on which every call succeeds, under the default configuration, and inputs
  for concrete runs.\<close>

definition fresh :: Job where
  "fresh = \<lparr>ID = ''7d444840-9dc0-11d1-b245-5ffdce74fad2'', Priority = 4, Timestamp = 1500000300,
     Retries = 0, ErrorType = [], ContentType = ''application/msgpack'', Raw = [],
     Acknowledger = None\<rparr>"

definition quiet :: env where
  "quiet = \<lparr>DefaultConfiguration = defaults,
     returns = (\<lambda>tr c. None),
     opens = (\<lambda>tr c. Inr 7),
     declares = (\<lambda>tr c. case c of
                   QueueDeclare k n durable autoDelete exclusive noWait args \<Rightarrow>
                     Inr \<lparr>Name = n, Messages = 0, Consumers = 0\<rparr>
                 | _ \<Rightarrow> Inl (Foreign ''not a declaration'')),
     consumes = (\<lambda>tr c. Inr []),
     PriorityUrgent = 8,
     allocates = (\<lambda>tr. Inr fresh),
     ErrEmptyJob_text = ''invalid empty job'',
     ErrAlreadyClosed_text = ''iterator is already closed'',
     ErrCantAck_text = ''can not acknowledge this message'',
     Args0 = ''rovers''\<rparr>"

definition buried :: Queue where
  "buried = Queue \<lparr>conn = 0, ch = 1\<rparr> \<lparr>Name = ''jobs.buriedQueue'', Messages = 0, Consumers = 0\<rparr>
     None"

definition jobs :: Queue where
  "jobs = Queue \<lparr>conn = 0, ch = 1\<rparr> \<lparr>Name = ''jobs'', Messages = 0, Consumers = 0\<rparr> (Some buried)"

definition start :: world where
  "start = \<lparr>trace = [], consumerSeq = 0\<rparr>"

definition job1 :: Job where
  "job1 = \<lparr>ID = ''job-1'', Priority = 4, Timestamp = 1500000000, Retries = 2,
     ErrorType = ''timeout'', ContentType = ''application/msgpack'', Raw = [1, 2, 3],
     Acknowledger = None\<rparr>"

text \<open>Deliveries: the message of \<open>job1\<close> as \<^verbatim>\<open>Publish\<close> encodes it, one whose retries
  header is a string, one whose error-type header is a boolean, and one without headers.\<close>

definition delivery1 :: Delivery where
  "delivery1 = \<lparr>dAcknowledger = 7,
     dHeaders = [''x-retries'' \<mapsto> FInt32 2, ''x-error-type'' \<mapsto> FString ''timeout''],
     dContentType = ''application/msgpack'', dPriority = 4, dMessageId = ''job-1'',
     dTimestamp = 1500000000, dDeliveryTag = 1, dBody = [1, 2, 3]\<rparr>"

definition delivery_retries_string :: Delivery where
  "delivery_retries_string = delivery1\<lparr>dHeaders := [''x-retries'' \<mapsto> FString ''2'']\<rparr>"

definition delivery_error_bool :: Delivery where
  "delivery_error_bool = delivery1\<lparr>dHeaders := [''x-error-type'' \<mapsto> FBool True]\<rparr>"

definition delivery_plain :: Delivery where
  "delivery_plain = delivery1\<lparr>dHeaders := Map.empty\<rparr>"

definition job_empty :: Job where
  "job_empty = job1\<lparr>Raw := []\<rparr>"

definition job_negative :: Job where
  "job_negative = job1\<lparr>Retries := - 1\<rparr>"

text \<open>Brokers on which one kind of call fails, an iterator, and two callbacks.\<close>

definition cancel_fails :: env where
  "cancel_fails = quiet\<lparr>returns :=
     (\<lambda>tr c. case c of Cancel k i n \<Rightarrow> Some (Foreign ''channel is not open'') | _ \<Rightarrow> None)\<rparr>"

definition rollback_fails :: env where
  "rollback_fails = quiet\<lparr>returns :=
     (\<lambda>tr c. case c of TxRollback k \<Rightarrow> Some (Foreign ''rollback failed'') | _ \<Rightarrow> None)\<rparr>"

definition iter1 :: JobIter where
  "iter1 = \<lparr>i_id = ''rovers-jobs.buriedQueue-1'', i_ch = 7, i_c = []\<rparr>"

definition callback_publishes :: "Queue \<Rightarrow> world \<Rightarrow> error option \<times> world" where
  "callback_publishes txq w = Publish quiet txq (Some job1) w"

definition callback_fails :: "Queue \<Rightarrow> world \<Rightarrow> error option \<times> world" where
  "callback_fails txq w = (Some (Foreign ''callback failed''), w)"

text \<open>Two conditions, a second delivery, and brokers that deliver both jobs to the consumer
  of the buried queue and then refuse every publish, or every reject.\<close>

definition always :: "Job \<Rightarrow> bool" where
  "always j = True"

definition never :: "Job \<Rightarrow> bool" where
  "never j = False"

definition delivery2 :: Delivery where
  "delivery2 = delivery1\<lparr>dMessageId := ''job-2'', dDeliveryTag := 2\<rparr>"

definition two_buried :: env where
  "two_buried = quiet\<lparr>consumes := (\<lambda>tr c. Inr [Deliver delivery1, Deliver delivery2])\<rparr>"

definition publish_fails :: env where
  "publish_fails = two_buried\<lparr>returns :=
     (\<lambda>tr c. case c of
        ChPublish k x key mandatory immediate m \<Rightarrow> Some (Foreign ''channel is not open'')
      | _ \<Rightarrow> None)\<rparr>"

definition main_publish_fails :: env where
  "main_publish_fails = two_buried\<lparr>returns :=
     (\<lambda>tr c. case c of
        ChPublish k x key mandatory immediate m \<Rightarrow>
          if key = ''jobs'' then Some (Foreign (''no route for '' @ pMessageId m)) else None
      | _ \<Rightarrow> None)\<rparr>"

definition reject_fails :: env where
  "reject_fails = two_buried\<lparr>returns :=
     (\<lambda>tr c. case c of
        Reject k t requeue \<Rightarrow> Some (Foreign ''channel is not open'')
      | _ \<Rightarrow> None)\<rparr>"

text \<open>The stages of \<^verbatim>\<open>RepublishBuried\<close> on \<open>jobs\<close> from \<open>start\<close> with these brokers: the
  iterator and the world after \<^verbatim>\<open>Consume\<close>; after the drain loop when no job complies and
  after the rejects; the failures, the world after the drain loop and the world after the
  publishes into the buried queue when every job complies and the main queue refuses them.\<close>

definition iter2 :: JobIter where
  "iter2 = \<lparr>i_id = ''rovers-jobs.buriedQueue-1'', i_ch = 7,
     i_c = [Deliver delivery1, Deliver delivery2]\<rparr>"

definition consuming :: world where
  "consuming = \<lparr>trace =
     [Channel 0, Qos 7 1 0 False,
      ChConsume 7 ''jobs.buriedQueue'' ''rovers-jobs.buriedQueue-1'' False False False False],
     consumerSeq = 1\<rparr>"

definition sleeps :: "call list" where
  "sleeps = [Sleep 50000000, Sleep 50000000, Sleep 50000000, Sleep 50000000]"

definition drained_never :: world where
  "drained_never = consuming\<lparr>trace := trace consuming @
     [Received 7 delivery1, Ack 7 1 False, Received 7 delivery2, Ack 7 2 False] @ sleeps\<rparr>"

definition rejected_never :: world where
  "rejected_never = drained_never\<lparr>trace := trace drained_never @
     [Reject 7 1 True, Reject 7 2 True]\<rparr>"

definition failures :: "jobErr list" where
  "failures =
     [\<lparr>je_job = decoded quiet delivery1, je_err = Foreign ''no route for job-1''\<rparr>,
      \<lparr>je_job = decoded quiet delivery2, je_err = Foreign ''no route for job-2''\<rparr>]"

definition drained_always :: world where
  "drained_always = consuming\<lparr>trace := trace consuming @
     [Received 7 delivery1, Ack 7 1 False, publish_call quiet jobs (decoded quiet delivery1),
      Received 7 delivery2, Ack 7 2 False, publish_call quiet jobs (decoded quiet delivery2)]
     @ sleeps\<rparr>"

definition reburied :: world where
  "reburied = drained_always\<lparr>trace := trace drained_always @
     [publish_call quiet buried (decoded quiet delivery1),
      publish_call quiet buried (decoded quiet delivery2)]\<rparr>"

section \<open>Properties\<close>

subsection \<open>Empty jobs\<close>

text \<open>
  C4: for a job argument that is \<^verbatim>\<open>nil\<close> or has an empty payload, \<^verbatim>\<open>Publish\<close> and
  \<^verbatim>\<open>PublishDelayed\<close> both return the empty-job error and leave the world as it was: no queue
  is declared and nothing is published.
\<close>

theorem Publish_empty_job:
  assumes "jo = None \<or> (\<exists>j. jo = Some j \<and> Raw j = [])"
  shows "Publish e q jo w = (Some ErrEmptyJob, w) \<and>
         PublishDelayed e q jo delay w = (Some ErrEmptyJob, w)"
  using assms by (auto simp: Publish_def PublishDelayed_def Size_def)

theorem Publish_empty_job_witness:
  "Publish quiet jobs None start = (Some ErrEmptyJob, start) \<and>
   PublishDelayed quiet jobs None 200000000 start = (Some ErrEmptyJob, start) \<and>
   Raw job_empty = [] \<and>
   Publish quiet jobs (Some job_empty) start = (Some ErrEmptyJob, start) \<and>
   PublishDelayed quiet jobs (Some job_empty) 200000000 start = (Some ErrEmptyJob, start)"
  using Publish_empty_job [of None quiet jobs start 200000000]
    Publish_empty_job [of "Some job_empty" quiet jobs start 200000000]
  by (simp add: job_empty_def)

subsection \<open>The headers of a published message\<close>

lemma publish_headers_retries:
  "RetriesHeader cfg \<noteq> ErrorHeader cfg \<Longrightarrow>
   publish_headers cfg j (RetriesHeader cfg) =
     (if 0 <s Retries j then Some (FInt32 (Retries j)) else None)"
  by (simp add: publish_headers_def Let_def)

lemma publish_headers_errorType:
  "RetriesHeader cfg \<noteq> ErrorHeader cfg \<Longrightarrow>
   publish_headers cfg j (ErrorHeader cfg) =
     (if ErrorType j \<noteq> [] then Some (FString (ErrorType j)) else None)"
  by (simp add: publish_headers_def Let_def)

lemma Publish_accepted:
  "Raw j \<noteq> [] \<Longrightarrow>
   Publish e q (Some j) w =
     perform e (ChPublish (ch (q_conn q)) [] (Name (q_queue q)) False False
       (publishing j (publish_headers (DefaultConfiguration e) j))) w"
  by (simp add: Publish_def Size_def)

text \<open>
  C7, as the code has it: for a job \<^verbatim>\<open>Publish\<close> accepts (with the two header names of the
  configuration distinct), the one call made is the publish of a message that carries the
  retries header exactly when \<^verbatim>\<open>Retries\<close> is greater than 0, then with that value as an
  \<^verbatim>\<open>int32\<close>, and the error-type header exactly when \<^verbatim>\<open>ErrorType\<close> is not the empty
  string, then with that string.
\<close>

theorem Publish_headers:
  assumes "Raw j \<noteq> []"
    and "RetriesHeader (DefaultConfiguration e) \<noteq> ErrorHeader (DefaultConfiguration e)"
  shows "\<exists>m. Publish e q (Some j) w =
            perform e (ChPublish (ch (q_conn q)) [] (Name (q_queue q)) False False m) w \<and>
           pHeaders m (RetriesHeader (DefaultConfiguration e)) =
             (if 0 <s Retries j then Some (FInt32 (Retries j)) else None) \<and>
           pHeaders m (ErrorHeader (DefaultConfiguration e)) =
             (if ErrorType j \<noteq> [] then Some (FString (ErrorType j)) else None)"
proof (intro exI conjI)
  show "Publish e q (Some j) w =
     perform e (ChPublish (ch (q_conn q)) [] (Name (q_queue q)) False False
       (publishing j (publish_headers (DefaultConfiguration e) j))) w"
    using assms(1) by (rule Publish_accepted)
  show "pHeaders (publishing j (publish_headers (DefaultConfiguration e) j))
          (RetriesHeader (DefaultConfiguration e)) =
        (if 0 <s Retries j then Some (FInt32 (Retries j)) else None)"
    using assms(2) by (simp add: publishing_def publish_headers_retries)
  show "pHeaders (publishing j (publish_headers (DefaultConfiguration e) j))
          (ErrorHeader (DefaultConfiguration e)) =
        (if ErrorType j \<noteq> [] then Some (FString (ErrorType j)) else None)"
    using assms(2) by (simp add: publishing_def publish_headers_errorType)
qed

theorem Publish_headers_witness:
  "Raw job1 \<noteq> [] \<and>
   RetriesHeader (DefaultConfiguration quiet) \<noteq> ErrorHeader (DefaultConfiguration quiet) \<and>
   (\<exists>m. Publish quiet jobs (Some job1) start =
            perform quiet (ChPublish 1 [] ''jobs'' False False m) start \<and>
         pHeaders m ''x-retries'' = Some (FInt32 2) \<and>
         pHeaders m ''x-error-type'' = Some (FString ''timeout''))"
  using Publish_headers [of job1 quiet jobs start]
  by (simp add: job1_def quiet_def defaults_def jobs_def word_sless_alt)

text \<open>
  C7 as stated, with "not its default value (0)" for the retries, fails on a negative
  count: \<open>job_negative\<close> has \<^verbatim>\<open>Retries = -1\<close>, is accepted, and its message has no retries
  header.
\<close>

theorem Publish_negative_retries:
  "Raw job_negative \<noteq> [] \<and> Retries job_negative \<noteq> 0 \<and>
   RetriesHeader (DefaultConfiguration quiet) = ''x-retries'' \<and>
   Publish quiet jobs (Some job_negative) start =
     perform quiet (ChPublish 1 [] ''jobs'' False False
       (publishing job_negative [''x-error-type'' \<mapsto> FString ''timeout''])) start \<and>
   pHeaders (publishing job_negative [''x-error-type'' \<mapsto> FString ''timeout'']) ''x-retries''
     = None"
  by (simp add: Publish_def Size_def job_negative_def job1_def quiet_def defaults_def jobs_def
      publish_headers_def publishing_def word_sless_alt)

subsection \<open>Decoding a delivery\<close>

text \<open>What \<^verbatim>\<open>fromDelivery\<close> returns once \<^verbatim>\<open>NewJob\<close> has allocated a job.\<close>

lemma fromDelivery_allocated:
  assumes "allocates e (trace w) = Inr a"
  shows "fromDelivery e d w =
    (if wrong_retries e d
     then Inl (ErrRetrievingHeader (RetriesHeader (DefaultConfiguration e)) (dMessageId d))
     else if wrong_errorType e d
     then Inl (ErrRetrievingHeader (ErrorHeader (DefaultConfiguration e)) (dMessageId d))
     else Inr \<lparr>ID = dMessageId d, Priority = dPriority d, Timestamp = dTimestamp d,
       Retries = (case dHeaders d (RetriesHeader (DefaultConfiguration e)) of
                    Some (FInt32 r) \<Rightarrow> r | _ \<Rightarrow> 0),
       ErrorType = (case dHeaders d (ErrorHeader (DefaultConfiguration e)) of
                    Some (FString s) \<Rightarrow> s | _ \<Rightarrow> []),
       ContentType = dContentType d, Raw = dBody d,
       Acknowledger = Some \<lparr>a_ack = dAcknowledger d, a_id = dDeliveryTag d\<rparr>\<rparr>)"
  using assms
  by (cases a)
     (auto simp: fromDelivery_def NewJob_def wrong_retries_def wrong_errorType_def Let_def
        split: option.splits field.splits)

text \<open>
  C5: when \<^verbatim>\<open>NewJob\<close> has allocated the job, \<^verbatim>\<open>fromDelivery\<close> returns the
  header-retrieval error with the name of the retries header and the message id if that
  header is present and not an \<^verbatim>\<open>int32\<close>; otherwise the same error with the name of the
  error-type header if that one is present and not a string; otherwise a job, whose
  \<^verbatim>\<open>Retries\<close> is 0 when the retries header is absent and whose \<^verbatim>\<open>ErrorType\<close> is empty
  when the error-type header is absent.
\<close>

theorem fromDelivery_headers:
  assumes "allocates e (trace w) = Inr a"
  shows "(wrong_retries e d \<longrightarrow>
            fromDelivery e d w =
              Inl (ErrRetrievingHeader (RetriesHeader (DefaultConfiguration e)) (dMessageId d))) \<and>
         (\<not> wrong_retries e d \<and> wrong_errorType e d \<longrightarrow>
            fromDelivery e d w =
              Inl (ErrRetrievingHeader (ErrorHeader (DefaultConfiguration e)) (dMessageId d))) \<and>
         (\<not> wrong_retries e d \<and> \<not> wrong_errorType e d \<longrightarrow>
            (\<exists>j. fromDelivery e d w = Inr j \<and>
               (dHeaders d (RetriesHeader (DefaultConfiguration e)) = None \<longrightarrow> Retries j = 0) \<and>
               (dHeaders d (ErrorHeader (DefaultConfiguration e)) = None \<longrightarrow> ErrorType j = [])))"
  by (simp add: fromDelivery_allocated [OF assms])

theorem fromDelivery_headers_witness:
  "allocates quiet (trace start) = Inr fresh \<and>
   wrong_retries quiet delivery_retries_string \<and>
   fromDelivery quiet delivery_retries_string start =
     Inl (ErrRetrievingHeader ''x-retries'' ''job-1'') \<and>
   \<not> wrong_retries quiet delivery_error_bool \<and> wrong_errorType quiet delivery_error_bool \<and>
   fromDelivery quiet delivery_error_bool start =
     Inl (ErrRetrievingHeader ''x-error-type'' ''job-1'') \<and>
   \<not> wrong_retries quiet delivery_plain \<and> \<not> wrong_errorType quiet delivery_plain \<and>
   dHeaders delivery_plain ''x-retries'' = None \<and>
   dHeaders delivery_plain ''x-error-type'' = None \<and>
   (\<exists>j. fromDelivery quiet delivery_plain start = Inr j \<and> Retries j = 0 \<and> ErrorType j = [])"
  using fromDelivery_headers [of quiet start fresh delivery_retries_string]
    fromDelivery_headers [of quiet start fresh delivery_error_bool]
    fromDelivery_headers [of quiet start fresh delivery_plain]
  by (simp add: quiet_def defaults_def start_def delivery_retries_string_def
      delivery_error_bool_def delivery_plain_def delivery1_def wrong_retries_def
      wrong_errorType_def)

text \<open>
  C2: a job with a payload is published as one message, and decoding the delivery of that
  message (on any channel, with any delivery tag) gives a job with the same id, priority,
  timestamp, content type and payload. The two header names of the configuration are
  distinct, and \<^verbatim>\<open>NewJob\<close> allocates the job at the decoding.
\<close>

theorem Publish_fromDelivery:
  assumes "Raw j \<noteq> []"
    and "RetriesHeader (DefaultConfiguration e) \<noteq> ErrorHeader (DefaultConfiguration e)"
    and "allocates e (trace w') = Inr a"
  shows "\<exists>m. Publish e q (Some j) w =
            perform e (ChPublish (ch (q_conn q)) [] (Name (q_queue q)) False False m) w \<and>
           (\<exists>j'. fromDelivery e (delivered c t m) w' = Inr j' \<and>
              ID j' = ID j \<and> Priority j' = Priority j \<and> Timestamp j' = Timestamp j \<and>
              ContentType j' = ContentType j \<and> Raw j' = Raw j)"
proof -
  let ?cfg = "DefaultConfiguration e"
  let ?m = "publishing j (publish_headers ?cfg j)"
  have h: "dHeaders (delivered c t ?m) = publish_headers ?cfg j"
    by (simp add: delivered_def publishing_def)
  have "\<not> wrong_retries e (delivered c t ?m)"
    using assms(2) by (simp add: wrong_retries_def h publish_headers_retries)
  moreover have "\<not> wrong_errorType e (delivered c t ?m)"
    using assms(2) by (simp add: wrong_errorType_def h publish_headers_errorType)
  ultimately have "\<exists>j'. fromDelivery e (delivered c t ?m) w' = Inr j' \<and>
      ID j' = ID j \<and> Priority j' = Priority j \<and> Timestamp j' = Timestamp j \<and>
      ContentType j' = ContentType j \<and> Raw j' = Raw j"
    by (simp add: fromDelivery_allocated [OF assms(3)] delivered_def publishing_def)
  with Publish_accepted [OF assms(1)] show ?thesis by blast
qed

theorem Publish_fromDelivery_witness:
  "Raw job1 \<noteq> [] \<and>
   RetriesHeader (DefaultConfiguration quiet) \<noteq> ErrorHeader (DefaultConfiguration quiet) \<and>
   allocates quiet (trace start) = Inr fresh \<and>
   (\<exists>m. Publish quiet jobs (Some job1) start =
           perform quiet (ChPublish 1 [] ''jobs'' False False m) start \<and>
         (\<exists>j'. fromDelivery quiet (delivered 7 1 m) start = Inr j' \<and>
            ID j' = ''job-1'' \<and> Priority j' = 4 \<and> Timestamp j' = 1500000000 \<and>
            ContentType j' = ''application/msgpack'' \<and> Raw j' = [1, 2, 3]))"
  using Publish_fromDelivery [of job1 quiet start fresh jobs start 7 1]
  by (simp add: job1_def quiet_def defaults_def jobs_def start_def)

subsection \<open>Delayed publishing\<close>

lemma sint_Millisecond: "sint Millisecond = 1000000"
  by (simp add: Millisecond_def)

lemma sdiv_million_bounds:
  fixes k :: int
  assumes "- (2 ^ 63) \<le> k" "k < 2 ^ 63"
  shows "- 9223372036855 \<le> k sdiv 1000000" "k sdiv 1000000 \<le> 9223372036855"
proof -
  have a: "\<bar>k sdiv 1000000\<bar> = \<bar>k\<bar> div 1000000"
    by (cases "k = 0") (simp_all add: signed_divide_int_def abs_mult)
  have "\<bar>k\<bar> \<le> 2 ^ 63" using assms by simp
  then have "\<bar>k\<bar> div 1000000 \<le> 2 ^ 63 div 1000000"
    by (rule zdiv_mono1) simp
  then have "\<bar>k sdiv 1000000\<bar> \<le> 9223372036855" using a by simp
  then show "- 9223372036855 \<le> k sdiv 1000000" "k sdiv 1000000 \<le> 9223372036855"
    by simp_all
qed

lemma sint_int64_range: "- (2 ^ 63) \<le> sint (x :: int64)" "sint (x :: int64) < 2 ^ 63"
  using sint_ge [of x] sint_lt [of x] by simp_all

lemma sint_ttl: "sint (div_int64 delay Millisecond) = sint delay sdiv 1000000"
proof -
  let ?k = "sint delay sdiv 1000000"
  have "- 9223372036855 \<le> ?k" "?k \<le> 9223372036855"
    using sdiv_million_bounds [OF sint_int64_range] by simp_all
  then have "signed_take_bit 63 ?k = ?k"
    by (intro signed_take_bit_int_eq_self) simp_all
  then show ?thesis
    by (simp add: div_int64_def sint_Millisecond sint_sbintrunc')
qed

lemma sint_expires:
  "sint (div_int64 delay Millisecond * 2) = 2 * sint (div_int64 delay Millisecond)"
proof -
  let ?k = "sint delay sdiv 1000000"
  have b: "- 9223372036855 \<le> ?k" "?k \<le> 9223372036855"
    using sdiv_million_bounds [OF sint_int64_range] by simp_all
  have "div_int64 delay Millisecond * 2 = (word_of_int (?k * 2) :: int64)"
    by (simp add: div_int64_def sint_Millisecond)
  then have "sint (div_int64 delay Millisecond * 2) = signed_take_bit 63 (?k * 2)"
    by (simp only: sint_sbintrunc') simp
  moreover have "signed_take_bit 63 (?k * 2) = ?k * 2"
    using b by (intro signed_take_bit_int_eq_self) simp_all
  ultimately show ?thesis
    by (simp add: sint_ttl)
qed

text \<open>
  C8: for a job with a payload, \<^verbatim>\<open>PublishDelayed\<close> first declares a queue named by the id
  of the job, durable and auto-deleting, whose arguments hold the delay in whole
  milliseconds as message TTL, twice that TTL as expiry (no overflow occurs), the default
  exchange as dead-letter exchange and the name of the main queue as dead-letter routing key.
  If the declaration fails its error is returned and nothing is published; otherwise the one
  further call publishes, to the queue the declaration returned, a message with neither the
  retries nor the error-type header.
\<close>

theorem PublishDelayed_queue:
  assumes "Raw j \<noteq> []"
  shows "\<exists>args ttl expires.
           args ''x-message-ttl'' = Some (FInt64 ttl) \<and>
           sint ttl = sint delay sdiv 1000000 \<and>
           args ''x-expires'' = Some (FInt64 expires) \<and>
           sint expires = 2 * sint ttl \<and>
           args ''x-dead-letter-exchange'' = Some (FString []) \<and>
           args ''x-dead-letter-routing-key'' = Some (FString (Name (q_queue q))) \<and>
           (case declares e (trace w)
                   (QueueDeclare (ch (q_conn q)) (ID j) True True False False args) of
              Inl err \<Rightarrow>
                PublishDelayed e q (Some j) delay w =
                  (Some err,
                   record_call (QueueDeclare (ch (q_conn q)) (ID j) True True False False args) w)
            | Inr delayedQueue \<Rightarrow>
                (\<exists>m. PublishDelayed e q (Some j) delay w =
                        perform e
                          (ChPublish (ch (q_conn q)) [] (Name delayedQueue) False False m)
                          (record_call
                             (QueueDeclare (ch (q_conn q)) (ID j) True True False False args) w) \<and>
                      pHeaders m (RetriesHeader (DefaultConfiguration e)) = None \<and>
                      pHeaders m (ErrorHeader (DefaultConfiguration e)) = None))"
proof -
  let ?args = "delayed_args e q delay"
  let ?ttl = "div_int64 delay Millisecond"
  have args: "?args ''x-message-ttl'' = Some (FInt64 ?ttl)"
    "?args ''x-expires'' = Some (FInt64 (?ttl * 2))"
    "?args ''x-dead-letter-exchange'' = Some (FString [])"
    "?args ''x-dead-letter-routing-key'' = Some (FString (Name (q_queue q)))"
    by (simp_all add: delayed_args_def Let_def)
  have run: "case declares e (trace w)
                   (QueueDeclare (ch (q_conn q)) (ID j) True True False False ?args) of
              Inl err \<Rightarrow>
                PublishDelayed e q (Some j) delay w =
                  (Some err,
                   record_call (QueueDeclare (ch (q_conn q)) (ID j) True True False False ?args) w)
            | Inr delayedQueue \<Rightarrow>
                (\<exists>m. PublishDelayed e q (Some j) delay w =
                        perform e
                          (ChPublish (ch (q_conn q)) [] (Name delayedQueue) False False m)
                          (record_call
                             (QueueDeclare (ch (q_conn q)) (ID j) True True False False ?args) w) \<and>
                      pHeaders m (RetriesHeader (DefaultConfiguration e)) = None \<and>
                      pHeaders m (ErrorHeader (DefaultConfiguration e)) = None)"
    using assms
    by (auto simp: PublishDelayed_def Size_def Let_def publishing_def split: sum.splits)
  show ?thesis
    by (rule exI [of _ ?args], rule exI [of _ ?ttl], rule exI [of _ "?ttl * 2"])
       (intro conjI args run sint_ttl sint_expires)
qed

theorem PublishDelayed_queue_witness:
  "Raw job1 \<noteq> [] \<and>
   (\<exists>args ttl expires.
      args ''x-message-ttl'' = Some (FInt64 ttl) \<and> sint ttl = 2 \<and>
      args ''x-expires'' = Some (FInt64 expires) \<and> sint expires = 4 \<and>
      args ''x-dead-letter-exchange'' = Some (FString []) \<and>
      args ''x-dead-letter-routing-key'' = Some (FString ''jobs'') \<and>
      (\<exists>m. PublishDelayed quiet jobs (Some job1) 2500000 start =
              perform quiet (ChPublish 1 [] ''job-1'' False False m)
                (record_call (QueueDeclare 1 ''job-1'' True True False False args) start) \<and>
            pHeaders m ''x-retries'' = None \<and> pHeaders m ''x-error-type'' = None))"
proof -
  have nonempty: "Raw job1 \<noteq> []"
    by (simp add: job1_def)
  obtain args ttl expires
    where ttl: "args ''x-message-ttl'' = Some (FInt64 ttl)"
        "sint ttl = sint (2500000 :: int64) sdiv 1000000"
      and expires: "args ''x-expires'' = Some (FInt64 expires)" "sint expires = 2 * sint ttl"
      and letter: "args ''x-dead-letter-exchange'' = Some (FString [])"
        "args ''x-dead-letter-routing-key'' = Some (FString (Name (q_queue jobs)))"
      and run: "case declares quiet (trace start)
                   (QueueDeclare (ch (q_conn jobs)) (ID job1) True True False False args) of
              Inl err \<Rightarrow>
                PublishDelayed quiet jobs (Some job1) 2500000 start =
                  (Some err,
                   record_call
                     (QueueDeclare (ch (q_conn jobs)) (ID job1) True True False False args) start)
            | Inr delayedQueue \<Rightarrow>
                (\<exists>m. PublishDelayed quiet jobs (Some job1) 2500000 start =
                        perform quiet
                          (ChPublish (ch (q_conn jobs)) [] (Name delayedQueue) False False m)
                          (record_call
                             (QueueDeclare (ch (q_conn jobs)) (ID job1) True True False False args)
                             start) \<and>
                      pHeaders m (RetriesHeader (DefaultConfiguration quiet)) = None \<and>
                      pHeaders m (ErrorHeader (DefaultConfiguration quiet)) = None)"
    using PublishDelayed_queue [OF nonempty, of 2500000 jobs quiet start] by blast
  have two: "sint ttl = 2"
    using ttl(2) by (simp add: signed_divide_int_def)
  have "declares quiet (trace start)
          (QueueDeclare (ch (q_conn jobs)) (ID job1) True True False False args) =
        Inr \<lparr>Name = ''job-1'', Messages = 0, Consumers = 0\<rparr>"
    by (simp add: quiet_def job1_def)
  with run obtain m
    where "PublishDelayed quiet jobs (Some job1) 2500000 start =
             perform quiet (ChPublish 1 [] ''job-1'' False False m)
               (record_call (QueueDeclare 1 ''job-1'' True True False False args) start)"
      and "pHeaders m ''x-retries'' = None" "pHeaders m ''x-error-type'' = None"
    by (auto simp: jobs_def job1_def quiet_def defaults_def)
  with nonempty ttl(1) two expires letter show ?thesis
    by (auto simp: jobs_def)
qed

subsection \<open>Closing an iterator\<close>

text \<open>
  C6, as the code has it: \<^verbatim>\<open>Close\<close> cancels the consumer of the iterator. If the cancel
  fails, its error is the result and that call is the only one made: the channel is not
  closed. If the cancel succeeds, the channel is closed next and the result of that close
  is the result.
\<close>

theorem JobIter_Close_result:
  "JobIter_Close e i w =
     (case returns e (trace w) (Cancel (i_ch i) (i_id i) False) of
        Some err \<Rightarrow> (Some err, w\<lparr>trace := trace w @ [Cancel (i_ch i) (i_id i) False]\<rparr>)
      | None \<Rightarrow>
          (returns e (trace w @ [Cancel (i_ch i) (i_id i) False]) (ChClose (i_ch i)),
           w\<lparr>trace := trace w @ [Cancel (i_ch i) (i_id i) False, ChClose (i_ch i)]\<rparr>))"
  by (simp add: JobIter_Close_def perform_def record_call_def split: option.splits)

text \<open>
  C6 as stated, with both attempts made even when the cancel fails, fails on a broker that
  refuses the cancel: the error of the cancel is returned and no close of the channel is in
  the trace.
\<close>

theorem JobIter_Close_cancel_fails:
  "JobIter_Close cancel_fails iter1 start =
     (Some (Foreign ''channel is not open''),
      \<lparr>trace = [Cancel 7 ''rovers-jobs.buriedQueue-1'' False], consumerSeq = 0\<rparr>) \<and>
   ChClose 7 \<notin> set (trace (snd (JobIter_Close cancel_fails iter1 start)))"
  by (simp add: JobIter_Close_def perform_def record_call_def cancel_fails_def quiet_def
      iter1_def start_def)

subsection \<open>Transactions\<close>

text \<open>
  C9: when the channel is opened and the transaction is begun, and the callback comes back
  with result \<open>r\<close>: if \<open>r\<close> is an error, the transaction is rolled back, and the result is
  the error of the rollback if it fails and the error of the callback otherwise; if \<open>r\<close> is
  \<^verbatim>\<open>nil\<close>, the transaction is committed and the result of the commit is the result. In each
  case the close of the dedicated channel is the last call.
\<close>

theorem Transaction_outcome:
  assumes "opens e (trace w) (conn (q_conn q)) = Inr c"
    and "returns e (trace w @ [Channel (conn (q_conn q))]) (Tx c) = None"
    and "txcb (txQueue q c) (w\<lparr>trace := trace w @ [Channel (conn (q_conn q)), Tx c]\<rparr>) = (r, w2)"
  shows "Transaction e q txcb w =
     (case r of
        Some err \<Rightarrow>
          (case returns e (trace w2) (TxRollback c) of
             Some err' \<Rightarrow> (Some err', w2\<lparr>trace := trace w2 @ [TxRollback c, ChClose c]\<rparr>)
           | None \<Rightarrow> (Some err, w2\<lparr>trace := trace w2 @ [TxRollback c, ChClose c]\<rparr>))
      | None \<Rightarrow>
          (returns e (trace w2) (TxCommit c),
           w2\<lparr>trace := trace w2 @ [TxCommit c, ChClose c]\<rparr>))"
  using assms
  by (simp add: Transaction_def perform_def record_call_def Let_def split: option.splits)

theorem Transaction_outcome_witness:
  "opens quiet (trace start) (conn (q_conn jobs)) = Inr 7 \<and>
   returns quiet (trace start @ [Channel (conn (q_conn jobs))]) (Tx 7) = None \<and>
   opens rollback_fails (trace start) (conn (q_conn jobs)) = Inr 7 \<and>
   returns rollback_fails (trace start @ [Channel (conn (q_conn jobs))]) (Tx 7) = None \<and>
   Transaction quiet jobs callback_fails start =
     (Some (Foreign ''callback failed''),
      \<lparr>trace = [Channel 0, Tx 7, TxRollback 7, ChClose 7], consumerSeq = 0\<rparr>) \<and>
   Transaction rollback_fails jobs callback_fails start =
     (Some (Foreign ''rollback failed''),
      \<lparr>trace = [Channel 0, Tx 7, TxRollback 7, ChClose 7], consumerSeq = 0\<rparr>) \<and>
   Transaction quiet jobs callback_publishes start =
     (None,
      \<lparr>trace = [Channel 0, Tx 7,
         ChPublish 7 [] ''jobs'' False False (publishing job1 (publish_headers defaults job1)),
         TxCommit 7, ChClose 7], consumerSeq = 0\<rparr>)"
proof -
  let ?w1 = "start\<lparr>trace := trace start @ [Channel (conn (q_conn jobs)), Tx 7]\<rparr>"
  have o: "opens quiet (trace start) (conn (q_conn jobs)) = Inr 7"
    "opens rollback_fails (trace start) (conn (q_conn jobs)) = Inr 7"
    by (simp_all add: quiet_def rollback_fails_def)
  have t: "returns quiet (trace start @ [Channel (conn (q_conn jobs))]) (Tx 7) = None"
    "returns rollback_fails (trace start @ [Channel (conn (q_conn jobs))]) (Tx 7) = None"
    by (simp_all add: quiet_def rollback_fails_def)
  have f: "callback_fails (txQueue jobs 7) ?w1 = (Some (Foreign ''callback failed''), ?w1)"
    by (simp add: callback_fails_def)
  have p: "callback_publishes (txQueue jobs 7) ?w1 =
      (None, ?w1\<lparr>trace := trace ?w1 @
         [ChPublish 7 [] ''jobs'' False False (publishing job1 (publish_headers defaults job1))]\<rparr>)"
    by (simp add: callback_publishes_def Publish_def Size_def job1_def txQueue_def jobs_def
        perform_def record_call_def quiet_def)
  show ?thesis
    using o t
      Transaction_outcome [where txcb = callback_fails, OF o(1) t(1) f]
      Transaction_outcome [where txcb = callback_fails, OF o(2) t(2) f]
      Transaction_outcome [where txcb = callback_publishes, OF o(1) t(1) p]
    by (simp add: start_def jobs_def quiet_def rollback_fails_def)
qed

lemma RepublishBuried_txQueue:
  "RepublishBuried e comply (txQueue q c) w = (Some ErrBuriedQueueNil, w)"
  by (simp add: RepublishBuried_def txQueue_def)

text \<open>
  C10: the queue a transaction hands to its callback has no buried queue, and
  \<^verbatim>\<open>RepublishBuried\<close> on it returns the nil-buried-queue error and leaves the world as it
  was; so a transaction whose callback is \<^verbatim>\<open>RepublishBuried\<close> runs as one whose callback
  does nothing but return that error.
\<close>

theorem Transaction_RepublishBuried:
  "buriedQueue (txQueue q c) = None \<and>
   RepublishBuried e comply (txQueue q c) w = (Some ErrBuriedQueueNil, w) \<and>
   Transaction e q (RepublishBuried e comply) w' =
     Transaction e q (\<lambda>txq w. (Some ErrBuriedQueueNil, w)) w'"
proof (intro conjI)
  show "buriedQueue (txQueue q c) = None"
    by (simp add: txQueue_def)
  show "RepublishBuried e comply (txQueue q c) w = (Some ErrBuriedQueueNil, w)"
    by (rule RepublishBuried_txQueue)
  show "Transaction e q (RepublishBuried e comply) w' =
          Transaction e q (\<lambda>txq w. (Some ErrBuriedQueueNil, w)) w'"
    by (simp add: Transaction_def Let_def RepublishBuried_txQueue
        split: sum.splits prod.splits option.splits)
qed

subsection \<open>Republishing buried jobs\<close>

text \<open>The steps of the drain loop, and what its trace says about the two lists it builds.\<close>

lemma fromDelivery_decoded: "fromDelivery e d w = Inr j \<Longrightarrow> j = decoded e d"
  by (auto simp: fromDelivery_def NewJob_def decoded_def Let_def
      split: sum.splits option.splits field.splits)

lemma received_append: "received (xs @ ys) = received xs @ received ys"
  by (induction xs rule: received.induct) auto

lemma accepted_append:
  "accepted e before (xs @ ys) = accepted e before xs @ accepted e (before @ xs) ys"
  by (induction xs arbitrary: before) auto

lemma nextNonBlocking_none: "nextNonBlocking e i w = (Inr None, i', w') \<Longrightarrow> w' = w"
  by (auto simp: nextNonBlocking_def Let_def split: list.splits poll.splits sum.splits)

lemma nextNonBlocking_some:
  "nextNonBlocking e i w = (Inr (Some j), i', w') \<Longrightarrow>
   \<exists>d. j = decoded e d \<and> w' = record_call (Received (i_ch i) d) w"
  by (auto simp: nextNonBlocking_def Let_def dest: fromDelivery_decoded
      split: list.splits poll.splits sum.splits)

lemma Job_Ack_decoded:
  "Job_Ack e (decoded e d) w = (r, w') \<Longrightarrow>
   w' = record_call (Ack (dAcknowledger d) (dDeliveryTag d) False) w"
  by (auto simp: Job_Ack_def Acknowledger_Ack_def perform_def decoded_def)

lemma Publish_some:
  "Publish e q (Some j) w = (r, w') \<Longrightarrow>
   Raw j = [] \<and> r = Some ErrEmptyJob \<and> w' = w \<or>
   Raw j \<noteq> [] \<and> r = returns e (trace w) (publish_call e q j) \<and>
     w' = record_call (publish_call e q j) w"
  by (auto simp: Publish_def Size_def perform_def publish_call_def split: if_splits)

lemma drained_empty: "drained e comply q before [] [] []"
  by (simp add: drained_def)

lemma drained_sleep:
  "drained e comply q (before @ [Sleep t]) seg ncs fs \<Longrightarrow>
   drained e comply q before (Sleep t # seg) ncs fs"
  by (simp add: drained_def)


lemma drained_collect:
  assumes "drained e comply q (before @ [Received c d, Ack a t False]) seg ncs fs"
    and "\<not> comply (decoded e d)"
  shows "drained e comply q before (Received c d # Ack a t False # seg) (decoded e d # ncs) fs"
  using assms by (auto simp: drained_def list_all_iff)

lemma drained_accepted:
  assumes "drained e comply q (before @ [Received c d, Ack a t False, publish_call e q (decoded e d)])
             seg ncs fs"
    and "comply (decoded e d)" and "dBody d \<noteq> []"
    and "returns e (before @ [Received c d, Ack a t False]) (publish_call e q (decoded e d)) = None"
  shows "drained e comply q before
           (Received c d # Ack a t False # publish_call e q (decoded e d) # seg) ncs fs"
  using assms by (auto simp: drained_def list_all_iff publish_call_def)

lemma drained_refused:
  assumes "drained e comply q (before @ [Received c d, Ack a t False, publish_call e q (decoded e d)])
             seg ncs fs"
    and "comply (decoded e d)" and "dBody d \<noteq> []"
    and "returns e (before @ [Received c d, Ack a t False]) (publish_call e q (decoded e d)) = Some err"
    and "trace wa = before @ [Received c d, Ack a t False]"
    and "Publish e q (Some (decoded e d)) wa = (Some err, wb)"
  shows "drained e comply q before
           (Received c d # Ack a t False # publish_call e q (decoded e d) # seg) ncs
           (\<lparr>je_job = decoded e d, je_err = err\<rparr> # fs)"
proof -
  have "\<exists>wa wb. prefix (trace wa)
          (before @ Received c d # Ack a t False # publish_call e q (decoded e d) # seg) \<and>
          Publish e q (Some (decoded e d)) wa = (Some err, wb)"
    using assms(5,6) by (intro exI [of _ wa] exI [of _ wb]) (simp add: prefix_def)
  with assms(1-4) show ?thesis
    by (auto simp: drained_def list_all_iff publish_call_def)
qed

lemma drained_empty_job:
  assumes "drained e comply q (before @ [Received c d, Ack a t False]) seg ncs fs"
    and "comply (decoded e d)" and "dBody d = []"
    and "trace wa = before @ [Received c d, Ack a t False]"
    and "Publish e q (Some (decoded e d)) wa = (Some err, wb)"
  shows "drained e comply q before (Received c d # Ack a t False # seg) ncs
           (\<lparr>je_job = decoded e d, je_err = err\<rparr> # fs)"
proof -
  have "\<exists>wa wb. prefix (trace wa) (before @ Received c d # Ack a t False # seg) \<and>
          Publish e q (Some (decoded e d)) wa = (Some err, wb)"
    using assms(4,5) by (intro exI [of _ wa] exI [of _ wb]) (simp add: prefix_def)
  with assms(1-3) show ?thesis
    by (auto simp: drained_def list_all_iff)
qed

lemma drain_drained:
  "drain e comply q iter r nc ep w = (Inr (nc', ep'), w') \<Longrightarrow>
   \<exists>seg ncs fs. trace w' = trace w @ seg \<and> nc' = nc @ ncs \<and> ep' = ep @ fs \<and>
     drained e comply q (trace w) seg ncs fs"
proof (induction e comply q iter r nc ep w rule: drain.induct)
  case (1 e comply q iter retries nc ep w)
  obtain x i1 w1 where n: "nextNonBlocking e iter w = (x, i1, w1)"
    by (cases "nextNonBlocking e iter w") auto
  note unfold = drain.simps [of e comply q iter retries nc ep w]
  show ?case
  proof (cases x)
    case (Inl err)
    with n "1.prems" show ?thesis
      by (simp add: unfold)
  next
    case (Inr b)
    show ?thesis
    proof (cases b)
      case None
      have w1: "w1 = w"
        using n Inr None by (auto dest: nextNonBlocking_none)
      show ?thesis
      proof (cases "BuriedNonBlockingRetries (DefaultConfiguration e) < retries")
        case True
        with n Inr None "1.prems" w1 have "nc' = nc" "ep' = ep" "w' = w"
          by (simp_all add: unfold)
        then show ?thesis
          using drained_empty by fastforce
      next
        case False
        with n Inr None "1.prems"
        have d: "drain e comply q i1 (retries + 1) nc ep (record_call (Sleep (50 * Millisecond)) w1)
                 = (Inr (nc', ep'), w')"
          by (simp add: unfold)
        from "1.IH"(1) [OF n [symmetric] Inr None refl False d]
        obtain seg ncs fs
          where "trace w' = trace (record_call (Sleep (50 * Millisecond)) w1) @ seg"
            and l: "nc' = nc @ ncs" "ep' = ep @ fs"
            and "drained e comply q (trace (record_call (Sleep (50 * Millisecond)) w1)) seg ncs fs"
          by blast
        then have "trace w' = trace w @ Sleep (50 * Millisecond) # seg"
          and "drained e comply q (trace w) (Sleep (50 * Millisecond) # seg) ncs fs"
          using w1 by (simp_all add: record_call_def drained_sleep)
        with l show ?thesis by blast
      qed
    next
      case (Some j)
      from n Inr Some obtain d
        where j: "j = decoded e d" and w1: "w1 = record_call (Received (i_ch iter) d) w"
        by (auto dest: nextNonBlocking_some)
      obtain ra w2 where a: "Job_Ack e j w1 = (ra, w2)"
        by (cases "Job_Ack e j w1") auto
      let ?ack = "Ack (dAcknowledger d) (dDeliveryTag d) False"
      have w2: "w2 = record_call ?ack w1"
        using a j by (auto dest: Job_Ack_decoded)
      have t2: "trace w2 = trace w @ [Received (i_ch iter) d, ?ack]"
        using w1 w2 by (simp add: record_call_def)
      show ?thesis
      proof (cases ra)
        case (Some err)
        with n Inr \<open>b = Some j\<close> a "1.prems" show ?thesis
          by (simp add: unfold)
      next
        case None
        note acked = None
        show ?thesis
        proof (cases "comply j")
          case False
          with n Inr \<open>b = Some j\<close> a acked "1.prems"
          have dr: "drain e comply q i1 0 (nc @ [j]) ep w2 = (Inr (nc', ep'), w')"
            by (simp add: unfold)
          from "1.IH"(4) [OF n [symmetric] Inr \<open>b = Some j\<close> refl a [symmetric] acked False dr]
          obtain seg ncs fs
            where "trace w' = trace w2 @ seg" and l: "nc' = (nc @ [j]) @ ncs" "ep' = ep @ fs"
              and "drained e comply q (trace w2) seg ncs fs"
            by blast
          then have "trace w' = trace w @ Received (i_ch iter) d # ?ack # seg"
            and "drained e comply q (trace w) (Received (i_ch iter) d # ?ack # seg) (j # ncs) fs"
            using t2 False j by (simp_all add: drained_collect)
          with l show ?thesis by auto
        next
          case True
          obtain rp w3 where p: "Publish e q (Some j) w2 = (rp, w3)"
            by (cases "Publish e q (Some j) w2") auto
          show ?thesis
          proof (cases rp)
            case None
            with n Inr \<open>b = Some j\<close> a acked True p "1.prems"
            have dr: "drain e comply q i1 0 nc ep w3 = (Inr (nc', ep'), w')"
              by (simp add: unfold)
            from "1.IH"(2) [OF n [symmetric] Inr \<open>b = Some j\<close> refl a [symmetric] acked True
                p [symmetric] None dr]
            obtain seg ncs fs
              where s: "trace w' = trace w3 @ seg" and l: "nc' = nc @ ncs" "ep' = ep @ fs"
                and dd: "drained e comply q (trace w3) seg ncs fs"
              by blast
            from Publish_some [OF p] None
            have pay: "Raw j \<noteq> []"
              and ok: "returns e (trace w2) (publish_call e q j) = None"
              and w3: "w3 = record_call (publish_call e q j) w2"
              by auto
            have t3: "trace w3 = trace w @ [Received (i_ch iter) d, ?ack, publish_call e q j]"
              using w3 t2 by (simp add: record_call_def)
            have "dBody d \<noteq> []"
              using pay j by (simp add: decoded_def)
            with dd t3 True j ok t2
            have "drained e comply q (trace w)
                    (Received (i_ch iter) d # ?ack # publish_call e q j # seg) ncs fs"
              by (simp add: drained_accepted)
            moreover have "trace w' =
                trace w @ Received (i_ch iter) d # ?ack # publish_call e q j # seg"
              using s t3 by simp
            ultimately show ?thesis using l by blast
          next
            case (Some err)
            with n Inr \<open>b = Some j\<close> a acked True p "1.prems"
            have dr: "drain e comply q i1 0 nc (ep @ [\<lparr>je_job = j, je_err = err\<rparr>]) w3
                      = (Inr (nc', ep'), w')"
              by (simp add: unfold)
            from "1.IH"(3) [OF n [symmetric] Inr \<open>b = Some j\<close> refl a [symmetric] acked True
                p [symmetric] Some dr]
            obtain seg ncs fs
              where s: "trace w' = trace w3 @ seg" and l: "nc' = nc @ ncs"
                "ep' = (ep @ [\<lparr>je_job = j, je_err = err\<rparr>]) @ fs"
                and dd: "drained e comply q (trace w3) seg ncs fs"
              by blast
            have pe: "Publish e q (Some (decoded e d)) w2 = (Some err, w3)"
              using p Some j by simp
            show ?thesis
            proof (cases "Raw j = []")
              case True
              with Publish_some [OF p] have w3: "w3 = w2" by auto
              have "dBody d = []"
                using True j by (simp add: decoded_def)
              with dd w3 t2 \<open>comply j\<close> j pe
              have "drained e comply q (trace w) (Received (i_ch iter) d # ?ack # seg) ncs
                      (\<lparr>je_job = decoded e d, je_err = err\<rparr> # fs)"
                by (intro drained_empty_job [where wa = w2 and wb = w3]) simp_all
              moreover have "trace w' = trace w @ Received (i_ch iter) d # ?ack # seg"
                using s w3 t2 by simp
              ultimately show ?thesis using l j by auto
            next
              case False
              with Publish_some [OF p] Some
              have no: "returns e (trace w2) (publish_call e q j) = Some err"
                and w3: "w3 = record_call (publish_call e q j) w2"
                by auto
              have t3: "trace w3 = trace w @ [Received (i_ch iter) d, ?ack, publish_call e q j]"
                using w3 t2 by (simp add: record_call_def)
              have "dBody d \<noteq> []"
                using False j by (simp add: decoded_def)
              with dd t3 t2 \<open>comply j\<close> j pe no
              have "drained e comply q (trace w)
                      (Received (i_ch iter) d # ?ack # publish_call e q (decoded e d) # seg) ncs
                      (\<lparr>je_job = decoded e d, je_err = err\<rparr> # fs)"
                by (intro drained_refused [where wa = w2 and wb = w3]) simp_all
              moreover have "trace w' =
                  trace w @ Received (i_ch iter) d # ?ack # publish_call e q (decoded e d) # seg"
                using s t3 j by simp
              ultimately show ?thesis using l j by auto
            qed
          qed
        qed
      qed
    qed
  qed
qed

lemma Job_Reject_decoded:
  "Job_Reject e (decoded e d) True w = perform e (reject_call d) w"
  by (simp add: Job_Reject_def Acknowledger_Reject_def decoded_def reject_call_def)

lemma reject_all_decoded:
  "reject_all e (map (decoded e) ds) w = (None, w') \<Longrightarrow>
   trace w' = trace w @ map reject_call ds"
proof (induction ds arbitrary: w)
  case Nil
  then show ?case by simp
next
  case (Cons d ds)
  then show ?case
    by (auto simp: Job_Reject_decoded perform_def record_call_def split: option.splits)
qed

lemma rebury_all:
  assumes "buriedQueue q = Some b"
  shows "rebury e q list se w = (Inr se', w') \<Longrightarrow>
     se' = se @ map (\<lambda>je. Error e (je_err je)) list \<and>
     trace w' = trace w @ map (\<lambda>je. publish_call e b (je_job je)) list \<and>
     accepted e (trace w) (map (\<lambda>je. publish_call e b (je_job je)) list) =
       map (\<lambda>je. publish_call e b (je_job je)) list"
proof (induction list arbitrary: se w)
  case Nil
  then show ?case by simp
next
  case (Cons je list)
  obtain r w1 where p: "Publish e b (Some (je_job je)) w = (r, w1)"
    by (cases "Publish e b (Some (je_job je)) w") auto
  with Cons.prems assms have r: "r = None"
    and rest: "rebury e q list (se @ [Error e (je_err je)]) w1 = (Inr se', w')"
    by (auto simp: Publish_on_def split: option.splits)
  from Publish_some [OF p] r
  have ok: "returns e (trace w) (publish_call e b (je_job je)) = None"
    and w1: "trace w1 = trace w @ [publish_call e b (je_job je)]"
    by (auto simp: record_call_def)
  from Cons.IH [OF rest] w1 ok show ?case
    by (simp add: publish_call_def)
qed

lemma sublist_Join: "s \<in> set ss \<Longrightarrow> sublist s (Join ss sep)"
proof (induction ss sep rule: Join.induct)
  case (1 sep)
  then show ?case by simp
next
  case (2 s' sep)
  then show ?case by simp
next
  case (3 s' t ss sep)
  show ?case
  proof (cases "s = s'")
    case True
    then show ?thesis by simp
  next
    case False
    with 3 have "sublist s (Join (t # ss) sep)" by simp
    then obtain ps rs where "Join (t # ss) sep = ps @ s @ rs"
      by (auto simp: sublist_def)
    then have "Join (s' # t # ss) sep = (s' @ sep @ ps) @ s @ rs"
      by simp
    then show ?thesis
      unfolding sublist_def by blast
  qed
qed

lemma sublist_ErrRepublishingJobs:
  "s \<in> set ss \<Longrightarrow> sublist s (Error e (ErrRepublishingJobs (Join ss sep)))"
proof -
  assume "s \<in> set ss"
  then obtain ps rs where "Join ss sep = ps @ s @ rs"
    using sublist_Join [of s ss sep] by (auto simp: sublist_def)
  then have "Error e (ErrRepublishingJobs (Join ss sep)) =
      (''couldn't republish some jobs : '' @ ps) @ s @ rs"
    by simp
  then show ?thesis
    unfolding sublist_def by blast
qed

lemma RepublishBuried_run:
  assumes "buriedQueue q = Some b"
    and "Consume e b 1 w = (Inr iter, w1)"
    and "drain e comply q iter 0 [] [] w1 = (Inr (notComplying, errorsPublishing), w2)"
    and "reject_all e notComplying w2 = (None, w3)"
  shows "RepublishBuried e comply q w =
    (fst (handleRepublishErrors e q errorsPublishing w3),
     snd (JobIter_Close e iter (snd (handleRepublishErrors e q errorsPublishing w3))))"
  using assms
  by (simp add: RepublishBuried_def republish_def split: prod.splits)

text \<open>The sample runs, stage by stage.\<close>

lemmas run_defs = RepublishBuried_def republish_def Consume_def consumeID_def perform_def
  record_call_def nextNonBlocking_def fromDelivery_def NewJob_def Job_Ack_def Job_Reject_def
  Acknowledger_Ack_def Acknowledger_Reject_def Publish_def Publish_on_def Size_def
  handleRepublishErrors_def JobIter_Close_def Let_def

lemmas sample_defs = quiet_def defaults_def jobs_def buried_def start_def job1_def
  delivery1_def delivery2_def fresh_def always_def never_def two_buried_def
  publishing_def publish_headers_def Millisecond_def iter2_def consuming_def sleeps_def
  drained_never_def rejected_never_def failures_def drained_always_def reburied_def
  decoded_def publish_call_def reject_call_def

lemma decimal_1: "decimal (Suc 0) = ''1''"
  by code_simp

lemma Consume_two_buried: "Consume two_buried buried 1 start = (Inr iter2, consuming)"
  by (simp add: run_defs sample_defs decimal_1)

lemma drain_never:
  "drain two_buried never jobs iter2 0 [] [] consuming =
     (Inr (map (decoded two_buried) [delivery1, delivery2], []), drained_never)"
  by (simp add: run_defs sample_defs drain.simps)

lemma reject_all_never:
  "reject_all two_buried (map (decoded two_buried) [delivery1, delivery2]) drained_never =
     (None, rejected_never)"
  by (simp add: run_defs sample_defs)

lemma Consume_main_publish_fails:
  "Consume main_publish_fails buried 1 start = (Inr iter2, consuming)"
  by (simp add: run_defs sample_defs decimal_1 main_publish_fails_def)

lemma drain_always:
  "drain main_publish_fails always jobs iter2 0 [] [] consuming = (Inr ([], failures), drained_always)"
  by (simp add: run_defs sample_defs drain.simps main_publish_fails_def)

lemma rebury_failures:
  "rebury main_publish_fails jobs failures [] drained_always =
     (Inr [''no route for job-1'', ''no route for job-2''], reburied)"
  by (simp add: run_defs sample_defs main_publish_fails_def)

text \<open>
  C3, as the code has it: when the drain loop of \<^verbatim>\<open>RepublishBuried\<close> ends at its
  \<^verbatim>\<open>break\<close> (no fetch and no \<^verbatim>\<open>Ack\<close> failed), \<^verbatim>\<open>notComplying\<close> holds exactly the
  fetched jobs for which the conditions do not comply, in the order fetched; the publishes
  made during the loop are those of the fetched jobs that comply and have a payload, and the
  jobs handed on in \<^verbatim>\<open>errorsPublishing\<close> all comply, so none of the collected jobs is
  published. When every \<^verbatim>\<open>Reject\<close> of the loop that follows succeeds, the calls of that
  loop are one reject with requeue, on the delivering channel and with the delivery tag, for
  each collected job, in order, and the call goes on to \<^verbatim>\<open>handleRepublishErrors\<close>.
\<close>

theorem RepublishBuried_rejects:
  assumes "buriedQueue q = Some b"
    and "Consume e b 1 w = (Inr iter, w1)"
    and "drain e comply q iter 0 [] [] w1 = (Inr (notComplying, errorsPublishing), w2)"
    and "reject_all e notComplying w2 = (None, w3)"
  shows "\<exists>seg. trace w2 = trace w1 @ seg \<and>
           notComplying =
             map (decoded e) (filter (\<lambda>d. \<not> comply (decoded e d)) (received seg)) \<and>
           trace w3 =
             trace w2 @ map reject_call (filter (\<lambda>d. \<not> comply (decoded e d)) (received seg)) \<and>
           filter is_ChPublish seg =
             map (\<lambda>d. publish_call e q (decoded e d))
               (filter (\<lambda>d. comply (decoded e d) \<and> dBody d \<noteq> []) (received seg)) \<and>
           list_all (\<lambda>je. comply (je_job je)) errorsPublishing \<and>
           RepublishBuried e comply q w =
             (fst (handleRepublishErrors e q errorsPublishing w3),
              snd (JobIter_Close e iter (snd (handleRepublishErrors e q errorsPublishing w3))))"
proof -
  from drain_drained [OF assms(3)] obtain seg
    where seg: "trace w2 = trace w1 @ seg"
      and d: "drained e comply q (trace w1) seg notComplying errorsPublishing"
    by auto
  let ?ds = "filter (\<lambda>d. \<not> comply (decoded e d)) (received seg)"
  from d have nc: "notComplying = map (decoded e) ?ds"
    by (simp add: drained_def)
  with assms(4) have "trace w3 = trace w2 @ map reject_call ?ds"
    by (auto dest: reject_all_decoded)
  moreover from d have "filter is_ChPublish seg =
      map (\<lambda>d. publish_call e q (decoded e d))
        (filter (\<lambda>d. comply (decoded e d) \<and> dBody d \<noteq> []) (received seg))"
    by (simp add: drained_def)
  moreover from d have "list_all (\<lambda>je. comply (je_job je)) errorsPublishing"
    by (simp add: drained_def list_all_iff)
  ultimately show ?thesis
    using seg nc RepublishBuried_run [OF assms] by blast
qed

theorem RepublishBuried_rejects_witness:
  "buriedQueue jobs = Some buried \<and>
   Consume two_buried buried 1 start = (Inr iter2, consuming) \<and>
   drain two_buried never jobs iter2 0 [] [] consuming =
     (Inr (map (decoded two_buried) [delivery1, delivery2], []), drained_never) \<and>
   reject_all two_buried (map (decoded two_buried) [delivery1, delivery2]) drained_never =
     (None, rejected_never) \<and>
   (\<exists>seg. trace drained_never = trace consuming @ seg \<and>
      map (decoded two_buried) [delivery1, delivery2] =
        map (decoded two_buried)
          (filter (\<lambda>d. \<not> never (decoded two_buried d)) (received seg)) \<and>
      trace rejected_never =
        trace drained_never @
        map reject_call (filter (\<lambda>d. \<not> never (decoded two_buried d)) (received seg)) \<and>
      filter is_ChPublish seg =
        map (\<lambda>d. publish_call two_buried jobs (decoded two_buried d))
          (filter (\<lambda>d. never (decoded two_buried d) \<and> dBody d \<noteq> []) (received seg)) \<and>
      list_all (\<lambda>je. never (je_job je)) ([] :: jobErr list) \<and>
      RepublishBuried two_buried never jobs start =
        (fst (handleRepublishErrors two_buried jobs [] rejected_never),
         snd (JobIter_Close two_buried iter2
                (snd (handleRepublishErrors two_buried jobs [] rejected_never)))))"
proof -
  have b: "buriedQueue jobs = Some buried"
    by (simp add: jobs_def)
  show ?thesis
    by (intro conjI b Consume_two_buried drain_never reject_all_never
        RepublishBuried_rejects [OF b Consume_two_buried drain_never reject_all_never])
qed

text \<open>
  C3 as stated, for every call, fails when a \<^verbatim>\<open>Reject\<close> fails: on a broker that refuses
  the rejects, with two buried jobs that do not comply, the call returns the error of the
  first reject, and the second job, fetched and acknowledged, is never rejected.
\<close>

theorem RepublishBuried_reject_fails:
  "RepublishBuried reject_fails never jobs start =
     (Some (Foreign ''channel is not open''),
      \<lparr>trace =
         [Channel 0, Qos 7 1 0 False,
          ChConsume 7 ''jobs.buriedQueue'' ''rovers-jobs.buriedQueue-1'' False False False False,
          Received 7 delivery1, Ack 7 1 False, Received 7 delivery2, Ack 7 2 False,
          Sleep 50000000, Sleep 50000000, Sleep 50000000, Sleep 50000000,
          Reject 7 1 True,
          Cancel 7 ''rovers-jobs.buriedQueue-1'' False, ChClose 7],
       consumerSeq = 1\<rparr>) \<and>
   \<not> never (decoded reject_fails delivery2) \<and>
   reject_call delivery2 = Reject 7 2 True \<and>
   Reject 7 2 True \<notin> set (trace (snd (RepublishBuried reject_fails never jobs start)))"
proof -
  have "RepublishBuried reject_fails never jobs start =
     (Some (Foreign ''channel is not open''),
      \<lparr>trace =
         [Channel 0, Qos 7 1 0 False,
          ChConsume 7 ''jobs.buriedQueue'' ''rovers-jobs.buriedQueue-1'' False False False False,
          Received 7 delivery1, Ack 7 1 False, Received 7 delivery2, Ack 7 2 False,
          Sleep 50000000, Sleep 50000000, Sleep 50000000, Sleep 50000000,
          Reject 7 1 True,
          Cancel 7 ''rovers-jobs.buriedQueue-1'' False, ChClose 7],
       consumerSeq = 1\<rparr>)"
    by (simp add: run_defs sample_defs reject_fails_def drain.simps decimal_1)
  then show ?thesis
    by (simp add: never_def reject_call_def delivery2_def delivery1_def)
qed

text \<open>
  C1, as the code has it: when the drain loop ends at its \<^verbatim>\<open>break\<close>, every \<^verbatim>\<open>Reject\<close>
  succeeds and \<^verbatim>\<open>errorsPublishing\<close> is not empty, and the loop of
  \<^verbatim>\<open>handleRepublishErrors\<close> is not left by a failed publish: the calls of that loop are one
  publish into the buried queue for each job of \<^verbatim>\<open>errorsPublishing\<close>, in order, each
  accepted by the broker; only then the call returns, and what it returns is the aggregate
  error, whose text contains the error text of each of these jobs. The jobs of
  \<^verbatim>\<open>errorsPublishing\<close> are fetched jobs that comply, each with the error \<^verbatim>\<open>Publish\<close> on
  the main queue returned for it during the run, and every fetched job that complies is
  among them or had its publish to the main queue accepted.
\<close>

theorem RepublishBuried_aggregate:
  assumes "buriedQueue q = Some b"
    and "Consume e b 1 w = (Inr iter, w1)"
    and "drain e comply q iter 0 [] [] w1 = (Inr (notComplying, errorsPublishing), w2)"
    and "reject_all e notComplying w2 = (None, w3)"
    and "rebury e q errorsPublishing [] w3 = (Inr stringErrors, w4)"
    and "errorsPublishing \<noteq> []"
  shows "RepublishBuried e comply q w =
           (Some (ErrRepublishingJobs
                    (Join (map (\<lambda>je. Error e (je_err je)) errorsPublishing) '': '')),
            snd (JobIter_Close e iter w4)) \<and>
         trace w4 = trace w3 @ map (\<lambda>je. publish_call e b (je_job je)) errorsPublishing \<and>
         accepted e (trace w3) (map (\<lambda>je. publish_call e b (je_job je)) errorsPublishing) =
           map (\<lambda>je. publish_call e b (je_job je)) errorsPublishing \<and>
         list_all (\<lambda>je. sublist (Error e (je_err je))
                     (Error e (ErrRepublishingJobs
                        (Join (map (\<lambda>je. Error e (je_err je)) errorsPublishing) '': ''))))
           errorsPublishing \<and>
         (\<exists>seg. trace w2 = trace w1 @ seg \<and>
            length (filter (\<lambda>d. comply (decoded e d)) (received seg)) =
              length errorsPublishing + length (accepted e (trace w1) seg) \<and>
            list_all (\<lambda>je. comply (je_job je) \<and> je_job je \<in> decoded e ` set (received seg) \<and>
                        (\<exists>wa wb. prefix (trace wa) (trace w2) \<and>
                           Publish e q (Some (je_job je)) wa = (Some (je_err je), wb)))
              errorsPublishing)"
proof -
  let ?texts = "map (\<lambda>je. Error e (je_err je)) errorsPublishing"
  from rebury_all [OF assms(1) assms(5)]
  have se: "stringErrors = ?texts"
    and t4: "trace w4 = trace w3 @ map (\<lambda>je. publish_call e b (je_job je)) errorsPublishing"
    and acc: "accepted e (trace w3) (map (\<lambda>je. publish_call e b (je_job je)) errorsPublishing) =
           map (\<lambda>je. publish_call e b (je_job je)) errorsPublishing"
    by simp_all
  have h: "handleRepublishErrors e q errorsPublishing w3 =
      (Some (ErrRepublishingJobs (Join ?texts '': '')), w4)"
    using assms(5,6) se by (simp add: handleRepublishErrors_def)
  have run: "RepublishBuried e comply q w =
      (Some (ErrRepublishingJobs (Join ?texts '': '')), snd (JobIter_Close e iter w4))"
    using RepublishBuried_run [OF assms(1-4)] h by simp
  have texts: "list_all (\<lambda>je. sublist (Error e (je_err je))
       (Error e (ErrRepublishingJobs (Join ?texts '': '')))) errorsPublishing"
    unfolding list_all_iff
    by (intro ballI sublist_ErrRepublishingJobs) simp
  from drain_drained [OF assms(3)] obtain seg
    where seg: "trace w2 = trace w1 @ seg"
      and d: "drained e comply q (trace w1) seg notComplying errorsPublishing"
    by auto
  from d seg have "length (filter (\<lambda>d. comply (decoded e d)) (received seg)) =
        length errorsPublishing + length (accepted e (trace w1) seg)"
    and "list_all (\<lambda>je. comply (je_job je) \<and> je_job je \<in> decoded e ` set (received seg) \<and>
           (\<exists>wa wb. prefix (trace wa) (trace w2) \<and>
              Publish e q (Some (je_job je)) wa = (Some (je_err je), wb))) errorsPublishing"
    by (simp_all add: drained_def)
  with seg run t4 acc texts show ?thesis by blast
qed

theorem RepublishBuried_aggregate_witness:
  "buriedQueue jobs = Some buried \<and>
   Consume main_publish_fails buried 1 start = (Inr iter2, consuming) \<and>
   drain main_publish_fails always jobs iter2 0 [] [] consuming =
     (Inr ([], failures), drained_always) \<and>
   reject_all main_publish_fails [] drained_always = (None, drained_always) \<and>
   rebury main_publish_fails jobs failures [] drained_always =
     (Inr [''no route for job-1'', ''no route for job-2''], reburied) \<and>
   failures \<noteq> [] \<and>
   RepublishBuried main_publish_fails always jobs start =
     (Some (ErrRepublishingJobs ''no route for job-1: no route for job-2''),
      snd (JobIter_Close main_publish_fails iter2 reburied)) \<and>
   trace reburied =
     trace drained_always @ map (\<lambda>je. publish_call main_publish_fails buried (je_job je)) failures \<and>
   list_all (\<lambda>je. sublist (Error main_publish_fails (je_err je))
               ''couldn't republish some jobs : no route for job-1: no route for job-2'')
     failures"
proof -
  have b: "buriedQueue jobs = Some buried"
    by (simp add: jobs_def)
  have r: "reject_all main_publish_fails [] drained_always = (None, drained_always)"
    by simp
  have f: "failures \<noteq> []"
    by (simp add: failures_def)
  have j: "Join (map (\<lambda>je. Error main_publish_fails (je_err je)) failures) '': '' =
      ''no route for job-1: no route for job-2''"
    by (simp add: failures_def)
  show ?thesis
    using b Consume_main_publish_fails drain_always r rebury_failures f
      RepublishBuried_aggregate [OF b Consume_main_publish_fails drain_always r rebury_failures f]
    unfolding j by simp
qed

text \<open>
  C1 as stated, for every call, fails when a publish into the buried queue fails: on a
  broker that refuses every publish, two buried jobs comply and fail to republish; the call
  returns the error of the first publish into the buried queue, not an aggregate error, and
  the second job, fetched and acknowledged, is never published into the buried queue.
\<close>

theorem RepublishBuried_publish_fails:
  "RepublishBuried publish_fails always jobs start =
     (Some (Foreign ''channel is not open''),
      \<lparr>trace =
         [Channel 0, Qos 7 1 0 False,
          ChConsume 7 ''jobs.buriedQueue'' ''rovers-jobs.buriedQueue-1'' False False False False,
          Received 7 delivery1, Ack 7 1 False,
          publish_call quiet jobs (decoded quiet delivery1),
          Received 7 delivery2, Ack 7 2 False,
          publish_call quiet jobs (decoded quiet delivery2),
          Sleep 50000000, Sleep 50000000, Sleep 50000000, Sleep 50000000,
          publish_call quiet buried (decoded quiet delivery1),
          Cancel 7 ''rovers-jobs.buriedQueue-1'' False, ChClose 7],
       consumerSeq = 1\<rparr>) \<and>
   always (decoded quiet delivery2) \<and>
   publish_call quiet buried (decoded quiet delivery2) \<notin>
     set (trace (snd (RepublishBuried publish_fails always jobs start)))"
proof -
  have "RepublishBuried publish_fails always jobs start =
     (Some (Foreign ''channel is not open''),
      \<lparr>trace =
         [Channel 0, Qos 7 1 0 False,
          ChConsume 7 ''jobs.buriedQueue'' ''rovers-jobs.buriedQueue-1'' False False False False,
          Received 7 delivery1, Ack 7 1 False,
          publish_call quiet jobs (decoded quiet delivery1),
          Received 7 delivery2, Ack 7 2 False,
          publish_call quiet jobs (decoded quiet delivery2),
          Sleep 50000000, Sleep 50000000, Sleep 50000000, Sleep 50000000,
          publish_call quiet buried (decoded quiet delivery1),
          Cancel 7 ''rovers-jobs.buriedQueue-1'' False, ChClose 7],
       consumerSeq = 1\<rparr>)"
    by (simp add: run_defs sample_defs publish_fails_def drain.simps decimal_1)
  then show ?thesis
    by (simp add: always_def publish_call_def decoded_def delivery2_def delivery1_def
        jobs_def buried_def publishing_def)
qed

end
